theory Spec2Isabelle
  imports Main "HOL-Library.AList"
begin

section \<open>Values of the HTTP layer\<close>

text \<open>
  The backend is a set of Express request handlers over a MongoDB store.  A handler
  reads the request, reads and writes documents, and sends one JSON response.  The model
  makes each of these explicit: a request is a record of the fields the handlers read, the
  store is a record of collections, a handler is a function from the request and the store
  to the response and the new store.  Logging is left out.

  Response bodies are JSON values.  A property with value \<open>undefined\<close> is not printed
  by \<open>res.json\<close>, so it is left out of the object.
\<close>

datatype json =
    JNull
  | JBool bool
  | JNum int
  | JStr string
  | JArr "json list"
  | JObj "(string \<times> json) list"

fun mentions_key :: "string \<Rightarrow> json \<Rightarrow> bool" where
  "mentions_key k JNull = False"
| "mentions_key k (JBool b) = False"
| "mentions_key k (JNum n) = False"
| "mentions_key k (JStr s) = False"
| "mentions_key k (JArr vs) = list_ex (mentions_key k) vs"
| "mentions_key k (JObj kvs) = list_ex (\<lambda>kv. fst kv = k \<or> mentions_key k (snd kv)) kvs"

record response =
  status :: nat
  cookies :: "(string \<times> string) list"
  body :: json

definition reply :: "nat \<Rightarrow> (string \<times> json) list \<Rightarrow> response" where
  "reply code kvs = \<lparr>status = code, cookies = [], body = JObj kvs\<rparr>"

text \<open>
  A thrown JavaScript error, with the three properties the handlers inspect:
  \<open>name\<close>, \<open>message\<close> and (Mongoose cast errors only) \<open>kind\<close>.
\<close>

datatype exn = Exn (ename: string) (emessage: string) (ekind: "string option")

subsection \<open>JavaScript strings\<close>

text \<open>
  A request field is a string or absent.  \<open>truthy\<close> is JavaScript's test of such a
  value in a condition: absent and the empty string are false.  \<open>js_or a b\<close> is
  \<open>a || b\<close>.
\<close>

definition truthy :: "string option \<Rightarrow> bool" where
  "truthy v = (case v of None \<Rightarrow> False | Some s \<Rightarrow> s \<noteq> [])"

definition js_or :: "string option \<Rightarrow> string option \<Rightarrow> string option" where
  "js_or a b = (if truthy a then a else b)"

definition or_default :: "string option \<Rightarrow> string \<Rightarrow> string" where
  "or_default a d = (case a of None \<Rightarrow> d | Some s \<Rightarrow> if s = [] then d else s)"

definition startsWith :: "string \<Rightarrow> string \<Rightarrow> bool" where
  "startsWith s p = (take (length p) s = p)"

fun split_on :: "char \<Rightarrow> string \<Rightarrow> string list" where
  "split_on c [] = [[]]"
| "split_on c (x # xs) =
     (if x = c then [] # split_on c xs
      else (case split_on c xs of
              [] \<Rightarrow> [[x]]
            | w # ws \<Rightarrow> (x # w) # ws))"

definition nth_opt :: "'a list \<Rightarrow> nat \<Rightarrow> 'a option" where
  "nth_opt xs i = (if i < length xs then Some (xs ! i) else None)"

definition is_hex :: "char \<Rightarrow> bool" where
  "is_hex c = (c \<in> set ''0123456789abcdefABCDEF'')"

definition is_object_id :: "string \<Rightarrow> bool" where
  \<comment> \<open>the test \<open>s.match(/^[0-9a-fA-F]{24}$/)\<close>\<close>
  "is_object_id s = (length s = 24 \<and> list_all is_hex s)"


section \<open>The data model\<close>

text \<open>
  An ObjectId that a document holds is modelled by the string that \<open>toString()\<close>
  prints for it: 24 hexadecimal digits, the letters in lower case.  An id that arrives in a
  request or in a token is any string; where Mongoose casts it to an ObjectId (the argument
  of \<open>findById\<close> and \<open>findByIdAndUpdate\<close>, a value stored in a path of
  type ObjectId) the model applies \<open>to_oid\<close>, and where a handler compares the
  request's string itself with \<open>toString()\<close> of a stored id, so does the model.
  A collection is an association list from ids to documents, read with \<open>map_of\<close>.
  The records hold the fields that the modelled handlers read, write or print; the
  remaining schema fields (a community's tags and events, a post's comments, a user's
  experience, education and social links, a job's salary and the like) take no part in
  them and are left out.

  The \<open>password\<close> of a user is optional because a loaded document holds it only when
  the query selected it: the schema declares it \<open>select: false\<close>.
\<close>

type_synonym oid = string

record applied_job =
  aj_job :: oid
  aj_status :: string
  aj_appliedAt :: int

record user =
  name :: string
  email :: string
  password :: "string option"
  profileImage :: string
  bio :: string
  skills :: "string list"
  location :: string
  savedJobs :: "oid list"
  appliedJobs :: "applied_job list"
  joinedCommunities :: "oid list"
  notifiedCommunities :: "oid list"

record community =
  c_name :: string
  c_description :: string
  c_image :: string
  members :: "oid list"
  moderators :: "oid list"
  c_posts :: "oid list"
  createdBy :: oid

record post =
  p_title :: string
  p_content :: string
  p_images :: "string list"
  p_author :: "oid option"
  p_authorName :: string
  p_community :: oid
  likes :: "oid list"
  p_tags :: "string list"

record applicant =
  ap_user :: oid
  ap_status :: string
  ap_appliedAt :: int
  ap_resume :: "string option"
  ap_coverLetter :: "string option"

record job =
  j_title :: string
  j_company :: string
  j_location :: string
  j_type :: string
  applicationDeadline :: "int option"
  postedBy :: oid
  applicants :: "applicant list"

record db =
  users :: "(oid \<times> user) list"
  communities :: "(oid \<times> community) list"
  posts :: "(oid \<times> post) list"
  jobs :: "(oid \<times> job) list"

text \<open>
  What the process takes from its environment and its libraries: the signing key
  (\<open>process.env.JWT_SECRET\<close>), \<open>jwt.verify\<close> (which returns the decoded id or
  throws), \<open>jwt.sign\<close>, \<open>bcrypt.compare\<close>, \<open>bcrypt.hash\<close>, the clock in
  milliseconds, and the id the store gives the next created document.
\<close>

record env =
  jwt_secret :: "string option"
  jwt_verify :: "string \<Rightarrow> string option \<Rightarrow> exn + string"
  jwt_sign :: "string \<Rightarrow> string \<Rightarrow> string"
  bcrypt_compare :: "string \<Rightarrow> string \<Rightarrow> bool"
  bcrypt_hash :: "string \<Rightarrow> string"
  now :: int
  new_id :: oid

subsection \<open>Store operations\<close>

text \<open>
  \<open>Model.findById\<close> casts its argument to an ObjectId and throws a \<open>CastError\<close>
  of kind \<open>ObjectId\<close> when it cannot; the strings the handlers' own format test
  accepts are taken as the castable ones.  The cast reads the hexadecimal digits in either
  letter case, and the ObjectId prints them in lower case.  \<open>findById\<close> returns
  \<open>null\<close> (here \<open>None\<close>) when no document has the id.  An update by id and the
  \<open>save\<close> of a loaded document address the document by the cast id as well.
\<close>

definition lower_hex :: "char \<Rightarrow> char" where
  "lower_hex c =
     (if c = CHR ''A'' then CHR ''a'' else if c = CHR ''B'' then CHR ''b''
      else if c = CHR ''C'' then CHR ''c'' else if c = CHR ''D'' then CHR ''d''
      else if c = CHR ''E'' then CHR ''e'' else if c = CHR ''F'' then CHR ''f''
      else c)"

definition to_oid :: "string \<Rightarrow> oid" where
  \<comment> \<open>the ObjectId that a string of 24 hexadecimal digits casts to, as it is printed\<close>
  "to_oid s = map lower_hex s"

definition cast_error :: exn where
  "cast_error = Exn ''CastError'' ''Cast to ObjectId failed'' (Some ''ObjectId'')"

definition findById :: "(oid \<times> 'a) list \<Rightarrow> string \<Rightarrow> exn + 'a option" where
  "findById coll i =
     (if is_object_id i then Inr (map_of coll (to_oid i)) else Inl cast_error)"

definition deselect_password :: "user \<Rightarrow> user" where
  \<comment> \<open>the projection of a user query that does not ask for the password\<close>
  "deselect_password u = u\<lparr>password := None\<rparr>"

definition addToSet :: "'a \<Rightarrow> 'a list \<Rightarrow> 'a list" where
  "addToSet x xs = (if x \<in> set xs then xs else xs @ [x])"

definition pull :: "'a \<Rightarrow> 'a list \<Rightarrow> 'a list" where
  "pull x xs = filter (\<lambda>y. y \<noteq> x) xs"

definition update_user :: "string \<Rightarrow> (user \<Rightarrow> user) \<Rightarrow> db \<Rightarrow> db" where
  \<comment> \<open>\<open>User.findByIdAndUpdate\<close>: no document with the id, no change\<close>
  "update_user uid f d = d\<lparr>users := AList.map_entry (to_oid uid) f (users d)\<rparr>"

definition save_community :: "string \<Rightarrow> community \<Rightarrow> db \<Rightarrow> db" where
  \<comment> \<open>\<open>community.save()\<close> of the document that \<open>findById cid\<close> loaded\<close>
  "save_community cid c d =
     d\<lparr>communities := AList.update (to_oid cid) c (communities d)\<rparr>"

definition save_post :: "string \<Rightarrow> post \<Rightarrow> db \<Rightarrow> db" where
  "save_post pid p d = d\<lparr>posts := AList.update (to_oid pid) p (posts d)\<rparr>"

definition insert_post :: "oid \<Rightarrow> post \<Rightarrow> db \<Rightarrow> db" where
  \<comment> \<open>\<open>Post.create\<close>: the new document, under the id the store gives it\<close>
  "insert_post pid p d = d\<lparr>posts := AList.update pid p (posts d)\<rparr>"

definition save_job :: "string \<Rightarrow> job \<Rightarrow> db \<Rightarrow> db" where
  "save_job jid j d = d\<lparr>jobs := AList.update (to_oid jid) j (jobs d)\<rparr>"

section \<open>Requests\<close>

text \<open>
  The fields of a request that the handlers read: the two cookies and the authorization
  header, the route parameter, and the body fields.  A body field that a handler tests
  for presence is optional, and so is the password of \<open>register\<close> and \<open>login\<close>,
  which a body may lack; the email and the name and description of a new community are
  strings.
\<close>

record request =
  cookie_token :: "string option"
  cookie_auth_token :: "string option"
  authorization :: "string option"
  params_id :: string
  body_userId :: "string option"
  body_authorName :: "string option"
  body_title :: "string option"
  body_content :: "string option"
  body_images :: "string list"
  body_tags :: "string list"
  body_name :: string
  body_description :: string
  body_image :: "string option"
  body_email :: string
  body_password :: "string option"
  body_resume :: "string option"
  body_coverLetter :: "string option"

section \<open>The authentication middleware\<close>

text \<open>
  A middleware either sends a response, which ends the request, or calls \<open>next()\<close>.
  The user it may leave in \<open>req.user\<close> is the loaded document, together with the
  string by which it was found.  \<open>req.user.id\<close>, the string of the document's
  ObjectId, is \<open>user_id\<close> of the pair.
\<close>

datatype auth_result =
    Halted response
  | Proceed "(string \<times> user) option"

definition user_id :: "string \<times> user \<Rightarrow> oid" where
  "user_id actor = to_oid (fst actor)"

definition bearer_token :: "request \<Rightarrow> string option" where
  "bearer_token req =
     js_or (js_or (cookie_token req) (cookie_auth_token req))
       (if truthy (authorization req) \<and>
           (case authorization req of None \<Rightarrow> False | Some h \<Rightarrow> startsWith h ''Bearer'')
        then (case authorization req of
                None \<Rightarrow> None
              | Some h \<Rightarrow> nth_opt (split_on CHR '' '' h) 1)
        else None)"

definition no_token_response :: response where
  "no_token_response = reply 401
     [(''message'', JStr ''Authentication required''),
      (''error'', JStr ''No token provided''),
      (''help'', JStr ''Please login to access this resource'')]"

definition misconfigured_response :: response where
  "misconfigured_response = reply 500
     [(''message'', JStr ''Server configuration error''),
      (''error'', JStr ''Auth system misconfigured'')]"

definition user_not_found_response :: response where
  "user_not_found_response = reply 401
     [(''message'', JStr ''User not found''),
      (''error'', JStr ''Account may have been deleted'')]"

definition token_expired_response :: response where
  "token_expired_response = reply 401
     [(''message'', JStr ''Authentication expired''),
      (''error'', JStr ''Token has expired''),
      (''help'', JStr ''Please login again to continue'')]"

definition invalid_token_response :: "string \<Rightarrow> response" where
  "invalid_token_response msg = reply 401
     [(''message'', JStr ''Invalid authentication''),
      (''error'', JStr msg),
      (''help'', JStr ''Please login again with valid credentials'')]"

definition auth_failed_response :: response where
  "auth_failed_response = reply 401
     [(''message'', JStr ''Authentication failed''),
      (''error'', JStr ''Token verification failed'')]"

definition token_error_response :: "exn \<Rightarrow> response" where
  \<comment> \<open>the inner \<open>catch (tokenError)\<close>\<close>
  "token_error_response err =
     (if ename err = ''TokenExpiredError'' then token_expired_response
      else if ename err = ''JsonWebTokenError'' then invalid_token_response (emessage err)
      else auth_failed_response)"

definition authMiddleware :: "env \<Rightarrow> db \<Rightarrow> request \<Rightarrow> auth_result" where
  "authMiddleware e d req =
     (case bearer_token req of
        None \<Rightarrow> Halted no_token_response
      | Some token \<Rightarrow>
          if token = [] then Halted no_token_response
          else if \<not> truthy (jwt_secret e) then Halted misconfigured_response
          else (case jwt_verify e token (jwt_secret e) of
                  Inl err \<Rightarrow> Halted (token_error_response err)
                | Inr decoded_id \<Rightarrow>
                    (case findById (users d) decoded_id of
                       Inl err \<Rightarrow> Halted (token_error_response err)
                     | Inr None \<Rightarrow> Halted user_not_found_response
                     | Inr (Some u) \<Rightarrow> Proceed (Some (decoded_id, deselect_password u)))))"

definition optionalAuthMiddleware :: "env \<Rightarrow> db \<Rightarrow> request \<Rightarrow> auth_result" where
  "optionalAuthMiddleware e d req =
     (case bearer_token req of
        None \<Rightarrow> Proceed None
      | Some token \<Rightarrow>
          if token = [] then Proceed None
          else (case jwt_verify e token (jwt_secret e) of
                  Inl err \<Rightarrow> Proceed None
                | Inr decoded_id \<Rightarrow>
                    (case findById (users d) decoded_id of
                       Inl err \<Rightarrow> Proceed None
                     | Inr None \<Rightarrow> Proceed None
                     | Inr (Some u) \<Rightarrow> Proceed (Some (decoded_id, deselect_password u)))))"

section \<open>Community membership\<close>

definition community_json :: "oid \<Rightarrow> community \<Rightarrow> json" where
  \<comment> \<open>a community document as \<open>res.json\<close> prints it, virtuals included\<close>
  "community_json cid c = JObj
     [(''_id'', JStr cid),
      (''name'', JStr (c_name c)),
      (''description'', JStr (c_description c)),
      (''image'', JStr (c_image c)),
      (''members'', JArr (map JStr (members c))),
      (''moderators'', JArr (map JStr (moderators c))),
      (''posts'', JArr (map JStr (c_posts c))),
      (''createdBy'', JStr (createdBy c)),
      (''memberCount'', JNum (int (length (members c)))),
      (''id'', JStr cid)]"

definition community_summary :: "oid \<Rightarrow> community \<Rightarrow> json" where
  "community_summary cid c = JObj
     [(''_id'', JStr cid),
      (''name'', JStr (c_name c)),
      (''description'', JStr (c_description c)),
      (''memberCount'', JNum (int (length (members c))))]"

definition server_error :: "exn \<Rightarrow> response" where
  "server_error err = reply 500
     [(''message'', JStr ''Server error''), (''error'', JStr (emessage err))]"

definition catch_or_404 :: "string \<Rightarrow> exn \<Rightarrow> response" where
  \<comment> \<open>the \<open>catch\<close> of a controller: a cast error is a 404 with the controller's message\<close>
  "catch_or_404 msg err =
     (if ekind err = Some ''ObjectId'' then reply 404 [(''message'', JStr msg)]
      else server_error err)"

definition resolve_member_id ::
  "db \<Rightarrow> (oid \<times> user) option \<Rightarrow> request \<Rightarrow> response + string option" where
  \<comment> \<open>join and leave: the id of the authenticated user, else the \<open>userId\<close> of the
      body, as it is written there, when it is well formed and finds a user\<close>
  "resolve_member_id d actor req =
     (case actor of
        Some a \<Rightarrow> Inr (Some (user_id a))
      | None \<Rightarrow>
          (case body_userId req of
             None \<Rightarrow> Inr None
           | Some i \<Rightarrow>
               if i = [] then Inr None
               else if \<not> is_object_id i then
                 Inl (reply 400
                   [(''message'', JStr ''Invalid user ID format in request''),
                    (''provided_id'', JStr i)])
               else (case findById (users d) i of
                       Inl err \<Rightarrow>
                         Inl (reply 400
                           [(''message'', JStr ''Error processing user ID''),
                            (''error'', JStr (emessage err))])
                     | Inr None \<Rightarrow> Inl (reply 404 [(''message'', JStr ''User not found'')])
                     | Inr (Some u) \<Rightarrow> Inr (Some i))))"

definition invalid_community_id :: "string \<Rightarrow> response" where
  "invalid_community_id i = reply 400
     [(''message'', JStr ''Invalid community ID format''), (''provided_id'', JStr i)]"

definition community_not_found :: "string \<Rightarrow> response" where
  "community_not_found i = reply 404
     [(''message'', JStr ''Community not found''), (''community_id'', JStr i)]"

definition already_member_response :: response where
  "already_member_response = reply 200
     [(''message'', JStr ''Already a member''), (''success'', JBool True)]"

definition join_user :: "oid \<Rightarrow> user \<Rightarrow> user" where
  \<comment> \<open>\<open>$addToSet: {joinedCommunities, notifiedCommunities}\<close>\<close>
  "join_user cid u =
     u\<lparr>joinedCommunities := addToSet cid (joinedCommunities u),
       notifiedCommunities := addToSet cid (notifiedCommunities u)\<rparr>"

definition is_space :: "char \<Rightarrow> bool" where
  "is_space c = (c \<in> set [CHR '' '', CHR 0x09, CHR 0x0A, CHR 0x0B, CHR 0x0C, CHR 0x0D])"

definition trim :: "string \<Rightarrow> string" where
  "trim s = rev (dropWhile is_space (rev (dropWhile is_space s)))"

fun join_comma :: "string list \<Rightarrow> string" where
  "join_comma [] = []"
| "join_comma [x] = x"
| "join_comma (x # y # ys) = x @ '', '' @ join_comma (y # ys)"

definition validation_error :: "string \<Rightarrow> string list \<Rightarrow> exn option" where
  "validation_error model problems =
     (if problems = [] then None
      else Some (Exn ''ValidationError''
                   (model @ '' validation failed: '' @ join_comma problems) None))"

definition validate_community :: "community \<Rightarrow> exn option" where
  "validate_community c =
     validation_error ''Community''
       ((if c_name c = [] then [''name: Community name is required''] else []) @
        (if c_description c = [] then [''description: Community description is required'']
         else []))"

definition createCommunity :: "env \<Rightarrow> db \<Rightarrow> oid \<times> user \<Rightarrow> request \<Rightarrow> response \<times> db" where
  \<comment> \<open>the filter of \<open>Community.findOne({name})\<close> passes the schema's \<open>trim\<close>, as
      the stored name does\<close>
  "createCommunity e d actor req =
     (case find (\<lambda>kc. c_name (snd kc) = trim (body_name req)) (communities d) of
        Some existing \<Rightarrow>
          (reply 400 [(''message'', JStr ''A community with this name already exists'')], d)
      | None \<Rightarrow>
          (let uid = user_id actor;
               c = \<lparr>c_name = trim (body_name req), c_description = body_description req,
                    c_image = (case body_image req of None \<Rightarrow> [] | Some i \<Rightarrow> i),
                    members = [uid], moderators = [uid], c_posts = [], createdBy = uid\<rparr>
           in case validate_community c of
                Some err \<Rightarrow> (server_error err, d)
              | None \<Rightarrow>
                  (let cid = new_id e;
                       d1 = d\<lparr>communities := communities d @ [(cid, c)]\<rparr>;
                       d2 = update_user uid (join_user cid) d1
                   in (reply 201 [(''success'', JBool True), (''data'', community_json cid c)],
                       d2))))"

definition joinCommunity :: "db \<Rightarrow> (oid \<times> user) option \<Rightarrow> request \<Rightarrow> response \<times> db" where
  \<comment> \<open>\<open>members.some(m => m.toString() === userIdStr)\<close> compares the printed ids with
      the string \<open>userId\<close>; \<open>members.push(userId)\<close> stores the ObjectId it casts to\<close>
  "joinCommunity d actor req =
     (let cid = params_id req in
      if cid = [] \<or> \<not> is_object_id cid then (invalid_community_id cid, d)
      else (case findById (communities d) cid of
              Inl err \<Rightarrow> (catch_or_404 ''Invalid ID format'' err, d)
            | Inr None \<Rightarrow> (community_not_found cid, d)
            | Inr (Some c) \<Rightarrow>
                (case resolve_member_id d actor req of
                   Inl r \<Rightarrow> (r, d)
                 | Inr None \<Rightarrow>
                     (reply 200
                        [(''success'', JBool True),
                         (''message'', JStr ''Authentication required to join community''),
                         (''data'', community_summary (to_oid cid) c)], d)
                 | Inr (Some userId) \<Rightarrow>
                     if userId = [] then
                       (reply 200
                          [(''success'', JBool True),
                           (''message'', JStr ''Authentication required to join community''),
                           (''data'', community_summary (to_oid cid) c)], d)
                     else if userId \<in> set (members c) then (already_member_response, d)
                     else
                       (let c' = c\<lparr>members := members c @ [to_oid userId]\<rparr>;
                            d1 = save_community cid c' d;
                            d2 = update_user userId (join_user (to_oid cid)) d1
                        in (reply 200
                              [(''success'', JBool True),
                               (''message'', JStr ''Joined community successfully''),
                               (''data'', community_json (to_oid cid) c')], d2)))))"

definition not_a_member_response :: response where
  "not_a_member_response = reply 400
     [(''message'', JStr ''Not a member of this community''), (''success'', JBool False)]"

definition last_moderator_response :: response where
  "last_moderator_response = reply 400
     [(''message'', JStr
        ''As the only moderator, you cannot leave the community. Assign another moderator first.'')]"

definition left_response :: response where
  "left_response = reply 200
     [(''success'', JBool True), (''message'', JStr ''Left community successfully'')]"

definition leave_user :: "oid \<Rightarrow> user \<Rightarrow> user" where
  \<comment> \<open>\<open>$pull: {joinedCommunities, notifiedCommunities}\<close>\<close>
  "leave_user cid u =
     u\<lparr>joinedCommunities := pull cid (joinedCommunities u),
       notifiedCommunities := pull cid (notifiedCommunities u)\<rparr>"

definition leaveCommunity :: "db \<Rightarrow> (oid \<times> user) option \<Rightarrow> request \<Rightarrow> response \<times> db" where
  "leaveCommunity d actor req =
     (let cid = params_id req in
      if cid = [] \<or> \<not> is_object_id cid then (invalid_community_id cid, d)
      else (case findById (communities d) cid of
              Inl err \<Rightarrow> (catch_or_404 ''Invalid ID format'' err, d)
            | Inr None \<Rightarrow> (community_not_found cid, d)
            | Inr (Some c) \<Rightarrow>
                (case resolve_member_id d actor req of
                   Inl r \<Rightarrow> (r, d)
                 | Inr None \<Rightarrow>
                     (reply 200
                        [(''success'', JBool True),
                         (''message'', JStr ''Authentication required to leave community''),
                         (''data'', community_summary (to_oid cid) c)], d)
                 | Inr (Some userId) \<Rightarrow>
                     if userId = [] then
                       (reply 200
                          [(''success'', JBool True),
                           (''message'', JStr ''Authentication required to leave community''),
                           (''data'', community_summary (to_oid cid) c)], d)
                     else if userId \<notin> set (members c) then (not_a_member_response, d)
                     else if userId \<in> set (moderators c) \<and> length (moderators c) = 1
                             \<and> length (members c) > 1
                       then (last_moderator_response, d)
                     else
                       (let c' = c\<lparr>members := filter (\<lambda>m. m \<noteq> userId) (members c),
                                    moderators := filter (\<lambda>m. m \<noteq> userId) (moderators c)\<rparr>;
                            d1 = save_community cid c' d;
                            d2 = update_user userId (leave_user (to_oid cid)) d1
                        in (left_response, d2)))))"

section \<open>Posts: like, unlike, create\<close>

definition author_json :: "db \<Rightarrow> oid \<Rightarrow> json" where
  \<comment> \<open>\<open>populate("author", "name profileImage")\<close>\<close>
  "author_json d a =
     (case map_of (users d) (to_oid a) of
        None \<Rightarrow> JNull
      | Some u \<Rightarrow> JObj [(''_id'', JStr (to_oid a)), (''name'', JStr (name u)),
                          (''profileImage'', JStr (profileImage u))])"

definition post_json :: "oid \<Rightarrow> post \<Rightarrow> (string \<times> json) list \<Rightarrow> json" where
  \<comment> \<open>a post document as printed, the author field given by the caller\<close>
  "post_json pid p author_field = JObj
     ([(''_id'', JStr pid),
       (''title'', JStr (p_title p)),
       (''content'', JStr (p_content p)),
       (''images'', JArr (map JStr (p_images p)))]
      @ author_field @
      [(''authorName'', JStr (p_authorName p)),
       (''community'', JStr (p_community p)),
       (''likes'', JArr (map JStr (likes p))),
       (''tags'', JArr (map JStr (p_tags p))),
       (''likeCount'', JNum (int (length (likes p)))),
       (''id'', JStr pid)])"

definition author_ref :: "post \<Rightarrow> (string \<times> json) list" where
  "author_ref p = (case p_author p of None \<Rightarrow> [] | Some a \<Rightarrow> [(''author'', JStr a)])"

definition resolve_liker :: "db \<Rightarrow> (oid \<times> user) option \<Rightarrow> request \<Rightarrow> exn + string option" where
  \<comment> \<open>like and unlike: the id of the authenticated user, else the \<open>userId\<close> of the
      body, as it is written there, when it finds a user\<close>
  "resolve_liker d actor req =
     (case actor of
        Some a \<Rightarrow> Inr (Some (user_id a))
      | None \<Rightarrow>
          (case body_userId req of
             None \<Rightarrow> Inr None
           | Some i \<Rightarrow>
               if i = [] then Inr None
               else (case findById (users d) i of
                       Inl err \<Rightarrow> Inl err
                     | Inr None \<Rightarrow> Inr None
                     | Inr (Some u) \<Rightarrow> Inr (Some i))))"

definition post_not_found :: response where
  "post_not_found = reply 404 [(''message'', JStr ''Post not found'')]"

definition already_liked_response :: response where
  "already_liked_response = reply 400 [(''message'', JStr ''Post already liked'')]"

definition not_liked_response :: response where
  "not_liked_response = reply 400 [(''message'', JStr ''Post not liked yet'')]"

definition like_needs_user :: response where
  "like_needs_user = reply 200
     [(''success'', JBool False),
      (''message'', JStr ''Authentication required to like posts'')]"

definition unlike_needs_user :: response where
  "unlike_needs_user = reply 200
     [(''success'', JBool False),
      (''message'', JStr ''Authentication required to unlike posts'')]"

definition likePost :: "db \<Rightarrow> (oid \<times> user) option \<Rightarrow> request \<Rightarrow> response \<times> db" where
  \<comment> \<open>\<open>likes.includes(userId)\<close> compares the printed ids with the string
      \<open>userId\<close>; \<open>likes.push(userId)\<close> stores the ObjectId it casts to\<close>
  "likePost d actor req =
     (let pid = params_id req in
      case findById (posts d) pid of
        Inl err \<Rightarrow> (catch_or_404 ''Post not found'' err, d)
      | Inr None \<Rightarrow> (post_not_found, d)
      | Inr (Some p) \<Rightarrow>
          (case resolve_liker d actor req of
             Inl err \<Rightarrow> (catch_or_404 ''Post not found'' err, d)
           | Inr None \<Rightarrow> (like_needs_user, d)
           | Inr (Some userId) \<Rightarrow>
               if userId = [] then (like_needs_user, d)
               else if userId \<in> set (likes p) then (already_liked_response, d)
               else
                 (let p' = p\<lparr>likes := likes p @ [to_oid userId]\<rparr>
                  in (reply 200
                        [(''success'', JBool True),
                         (''message'', JStr ''Post liked successfully''),
                         (''likeCount'', JNum (int (length (likes p')))),
                         (''data'', post_json (to_oid pid) p' (author_ref p'))],
                      save_post pid p' d))))"

definition unlikePost :: "db \<Rightarrow> (oid \<times> user) option \<Rightarrow> request \<Rightarrow> response \<times> db" where
  "unlikePost d actor req =
     (let pid = params_id req in
      case findById (posts d) pid of
        Inl err \<Rightarrow> (catch_or_404 ''Post not found'' err, d)
      | Inr None \<Rightarrow> (post_not_found, d)
      | Inr (Some p) \<Rightarrow>
          (case resolve_liker d actor req of
             Inl err \<Rightarrow> (catch_or_404 ''Post not found'' err, d)
           | Inr None \<Rightarrow> (unlike_needs_user, d)
           | Inr (Some userId) \<Rightarrow>
               if userId = [] then (unlike_needs_user, d)
               else if userId \<notin> set (likes p) then (not_liked_response, d)
               else
                 (let p' = p\<lparr>likes := filter (\<lambda>l. l \<noteq> userId) (likes p)\<rparr>
                  in (reply 200
                        [(''success'', JBool True),
                         (''message'', JStr ''Post unliked successfully''),
                         (''likeCount'', JNum (int (length (likes p')))),
                         (''data'', post_json (to_oid pid) p' (author_ref p'))],
                      save_post pid p' d))))"

definition validate_post :: "post \<Rightarrow> exn option" where
  \<comment> \<open>the schema's \<open>required\<close> validators, which an empty string fails\<close>
  "validate_post p =
     validation_error ''Post''
       ((if p_title p = [] then [''title: Post title is required''] else []) @
        (if p_content p = [] then [''content: Post content is required''] else []))"

definition resolve_author ::
  "db \<Rightarrow> (oid \<times> user) option \<Rightarrow> request \<Rightarrow> exn + (string option \<times> string)" where
  \<comment> \<open>create post: the author id, when there is one, and the author's display name\<close>
  "resolve_author d actor req =
     (case actor of
        Some a \<Rightarrow> Inr (Some (user_id a), name (snd a))
      | None \<Rightarrow>
          (case body_userId req of
             None \<Rightarrow> Inr (None, or_default (body_authorName req) ''Anonymous User'')
           | Some i \<Rightarrow>
               if i = [] then Inr (None, or_default (body_authorName req) ''Anonymous User'')
               else (case findById (users d) i of
                       Inl err \<Rightarrow> Inl err
                     | Inr None \<Rightarrow>
                         Inr (None, or_default (body_authorName req) ''Anonymous User'')
                     | Inr (Some u) \<Rightarrow>
                         Inr (Some i, or_default (body_authorName req) (name u)))))"

definition ensure_member :: "string \<Rightarrow> community \<Rightarrow> string option \<Rightarrow> db \<Rightarrow> community \<times> db" where
  \<comment> \<open>create post, \<open>if (author) { if (!community.members.includes(author)) ... }\<close>\<close>
  "ensure_member cid c author d =
     (case author of
        None \<Rightarrow> (c, d)
      | Some a \<Rightarrow>
          if a = [] then (c, d)
          else if a \<in> set (members c) then (c, d)
          else
            (let c' = c\<lparr>members := members c @ [to_oid a]\<rparr>;
                 d1 = update_user a (join_user (to_oid cid)) d;
                 d2 = save_community cid c' d1
             in (c', d2)))"

definition createPost ::
  "env \<Rightarrow> db \<Rightarrow> (oid \<times> user) option \<Rightarrow> request \<Rightarrow> response \<times> db" where
  "createPost e d actor req =
     (let cid = params_id req in
      case findById (communities d) cid of
        Inl err \<Rightarrow> (catch_or_404 ''Community not found'' err, d)
      | Inr None \<Rightarrow> (reply 404 [(''message'', JStr ''Community not found'')], d)
      | Inr (Some c) \<Rightarrow>
          (case resolve_author d actor req of
             Inl err \<Rightarrow> (catch_or_404 ''Community not found'' err, d)
           | Inr (author, authorName) \<Rightarrow>
               (case ensure_member cid c author d of
                  (c1, d1) \<Rightarrow>
                    (let postData =
                           \<lparr>p_title = trim (or_default (body_title req) ''Post''),
                            p_content = or_default (body_content req) [],
                            p_images = body_images req,
                            p_author = (if truthy author then map_option to_oid author
                                        else None),
                            p_authorName = authorName,
                            p_community = to_oid cid,
                            likes = [],
                            p_tags = map trim (body_tags req)\<rparr>
                     in case validate_post postData of
                          Some err \<Rightarrow> (catch_or_404 ''Community not found'' err, d1)
                        | None \<Rightarrow>
                            (let pid = new_id e;
                                 d2 = insert_post pid postData d1;
                                 c2 = c1\<lparr>c_posts := c_posts c1 @ [pid]\<rparr>;
                                 d3 = save_community cid c2 d2
                             in (reply 201
                                   [(''success'', JBool True),
                                    (''data'', post_json pid postData
                                       (case p_author postData of
                                          None \<Rightarrow> []
                                        | Some a \<Rightarrow> [(''author'', author_json d3 a)]))],
                                 d3))))))"

section \<open>Jobs: save and apply\<close>

record toggle_result =
  t_success :: bool
  t_message :: string
  isSaved :: bool

definition toggleSave :: "db \<Rightarrow> string \<Rightarrow> string \<Rightarrow> exn + (toggle_result \<times> db)" where
  \<comment> \<open>\<open>JobSchema.statics.toggleSave\<close>; a thrown error is rethrown to the caller;
      \<open>job_id\<close> is \<open>job._id\<close>\<close>
  "toggleSave d jobId userId =
     (case findById (jobs d) jobId of
        Inl err \<Rightarrow> Inl err
      | Inr None \<Rightarrow> Inl (Exn ''Error'' ''Job not found'' None)
      | Inr (Some j) \<Rightarrow>
          (case findById (users d) userId of
             Inl err \<Rightarrow> Inl err
           | Inr None \<Rightarrow> Inl (Exn ''Error'' ''User not found'' None)
           | Inr (Some u) \<Rightarrow>
               (let job_id = to_oid jobId in
                if job_id \<in> set (savedJobs u) then
                  Inr (\<lparr>t_success = True, t_message = ''Job unsaved'', isSaved = False\<rparr>,
                       update_user userId (\<lambda>v. v\<lparr>savedJobs := pull job_id (savedJobs v)\<rparr>) d)
                else
                  Inr (\<lparr>t_success = True, t_message = ''Job saved'', isSaved = True\<rparr>,
                       update_user userId
                         (\<lambda>v. v\<lparr>savedJobs := addToSet job_id (savedJobs v)\<rparr>) d))))"

definition saveJob :: "db \<Rightarrow> oid \<times> user \<Rightarrow> request \<Rightarrow> response \<times> db" where
  "saveJob d actor req =
     (case toggleSave d (params_id req) (user_id actor) of
        Inr (r, d') \<Rightarrow>
          (reply 200
             [(''success'', JBool (t_success r)),
              (''message'', JStr (t_message r)),
              (''isSaved'', JBool (isSaved r))], d')
      | Inl err \<Rightarrow>
          (if emessage err = ''Job not found'' \<or> ekind err = Some ''ObjectId''
             then reply 404 [(''message'', JStr ''Job not found'')]
           else if emessage err = ''User not found''
             then reply 404 [(''message'', JStr ''User not found'')]
           else server_error err, d))"

definition already_applied_response :: response where
  "already_applied_response = reply 400 [(''message'', JStr ''Already applied for this job'')]"

definition deadline_passed_response :: response where
  "deadline_passed_response = reply 400 [(''message'', JStr ''Application deadline has passed'')]"

definition applied_response :: response where
  "applied_response = reply 200
     [(''success'', JBool True), (''message'', JStr ''Applied for job successfully'')]"

definition new_applicant :: "env \<Rightarrow> string \<Rightarrow> request \<Rightarrow> applicant" where
  \<comment> \<open>the entry that \<open>applicants.unshift({user: uid, ...})\<close> stores\<close>
  "new_applicant e uid req =
     \<lparr>ap_user = to_oid uid, ap_status = ''applied'', ap_appliedAt = now e,
      ap_resume = body_resume req, ap_coverLetter = body_coverLetter req\<rparr>"

definition new_applied_job :: "env \<Rightarrow> string \<Rightarrow> applied_job" where
  \<comment> \<open>the entry \<open>{job: job._id, ...}\<close> for the job that \<open>findById jid\<close> loaded\<close>
  "new_applied_job e jid =
     \<lparr>aj_job = to_oid jid, aj_status = ''applied'', aj_appliedAt = now e\<rparr>"

definition applyForJob :: "env \<Rightarrow> db \<Rightarrow> oid \<times> user \<Rightarrow> request \<Rightarrow> response \<times> db" where
  "applyForJob e d actor req =
     (let jid = params_id req; uid = user_id actor in
      case findById (jobs d) jid of
        Inl err \<Rightarrow> (catch_or_404 ''Job not found'' err, d)
      | Inr None \<Rightarrow> (reply 404 [(''message'', JStr ''Job not found'')], d)
      | Inr (Some j) \<Rightarrow>
          if list_ex (\<lambda>app. ap_user app = uid) (applicants j) then (already_applied_response, d)
          else if (case applicationDeadline j of None \<Rightarrow> False | Some t \<Rightarrow> t < now e)
            then (deadline_passed_response, d)
          else
            (let j' = j\<lparr>applicants := new_applicant e uid req # applicants j\<rparr>;
                 d1 = save_job jid j' d;
                 d2 = update_user uid
                        (\<lambda>u. u\<lparr>appliedJobs := appliedJobs u @ [new_applied_job e jid]\<rparr>) d1
             in (applied_response, d2)))"

section \<open>Accounts: register, login, current user\<close>

definition lower_char :: "char \<Rightarrow> char" where
  "lower_char c =
     (case map_of (zip ''ABCDEFGHIJKLMNOPQRSTUVWXYZ'' ''abcdefghijklmnopqrstuvwxyz'') c of
        None \<Rightarrow> c
      | Some l \<Rightarrow> l)"

definition lowercase :: "string \<Rightarrow> string" where
  \<comment> \<open>\<open>toLowerCase\<close> on the letters of ASCII\<close>
  "lowercase s = map lower_char s"

definition user_fields :: "oid \<Rightarrow> user \<Rightarrow> (string \<times> json) list \<Rightarrow> (string \<times> json) list \<Rightarrow>
    (string \<times> json) list" where
  \<comment> \<open>a loaded user document as \<open>res.json\<close> prints it: the password is printed when
      the document holds it; the applied jobs and the joined communities are given by the
      caller, who may have populated them\<close>
  "user_fields uid u applied joined =
     [(''_id'', JStr uid),
      (''name'', JStr (name u)),
      (''email'', JStr (email u))]
     @ (case password u of None \<Rightarrow> [] | Some h \<Rightarrow> [(''password'', JStr h)]) @
     [(''profileImage'', JStr (profileImage u)),
      (''bio'', JStr (bio u)),
      (''skills'', JArr (map JStr (skills u))),
      (''location'', JStr (location u)),
      (''savedJobs'', JArr (map JStr (savedJobs u)))]
     @ applied @ joined @
     [(''notifiedCommunities'', JArr (map JStr (notifiedCommunities u)))]"

definition applied_job_json :: "json \<Rightarrow> applied_job \<Rightarrow> json" where
  "applied_job_json job_field a = JObj
     [(''job'', job_field), (''status'', JStr (aj_status a)), (''appliedAt'', JNum (aj_appliedAt a))]"

definition applied_refs :: "user \<Rightarrow> json" where
  "applied_refs u = JArr (map (\<lambda>a. applied_job_json (JStr (aj_job a)) a) (appliedJobs u))"

definition public_user :: "oid \<Rightarrow> user \<Rightarrow> json" where
  \<comment> \<open>the object literal \<open>{id, name, email, profileImage}\<close> of register and login\<close>
  "public_user uid u = JObj
     [(''id'', JStr uid), (''name'', JStr (name u)), (''email'', JStr (email u)),
      (''profileImage'', JStr (profileImage u))]"

definition generateToken :: "env \<Rightarrow> oid \<Rightarrow> exn + string" where
  \<comment> \<open>\<open>jwt.sign\<close> throws when it is given no key\<close>
  "generateToken e uid =
     (case jwt_secret e of
        None \<Rightarrow> Inl (Exn ''Error'' ''secretOrPrivateKey must have a value'' None)
      | Some k \<Rightarrow>
          if k = [] then Inl (Exn ''Error'' ''secretOrPrivateKey must have a value'' None)
          else Inr (jwt_sign e k uid))"

definition token_response :: "nat \<Rightarrow> oid \<Rightarrow> user \<Rightarrow> string \<Rightarrow> response" where
  "token_response code uid u token =
     \<lparr>status = code,
      cookies = [(''token'', token), (''auth_token'', token)],
      body = JObj [(''success'', JBool True), (''user'', public_user uid u),
                   (''token'', JStr token)]\<rparr>"

definition findOne_email :: "(oid \<times> user) list \<Rightarrow> string \<Rightarrow> (oid \<times> user) option" where
  \<comment> \<open>\<open>User.findOne({email})\<close>: the filter passes the schema's \<open>trim\<close> and
      \<open>lowercase\<close>, as the stored email does\<close>
  "findOne_email us m = find (\<lambda>iu. email (snd iu) = lowercase (trim m)) us"

definition validate_user ::
  "(string \<Rightarrow> bool) \<Rightarrow> string \<Rightarrow> string \<Rightarrow> string option \<Rightarrow> exn option" where
  \<comment> \<open>the user schema's validators; the email pattern is a parameter; an absent password
      and an empty one fail \<open>required\<close>\<close>
  "validate_user email_matches nm em pw =
     validation_error ''User''
       ((if nm = [] then [''name: Name is required''] else []) @
        (if em = [] then [''email: Email is required'']
         else if \<not> email_matches em then [''email: Please provide a valid email'']
         else []) @
        (if or_default pw [] = [] then [''password: Password is required'']
         else if length (or_default pw []) < 6
           then [''password: Password must be at least 6 characters'']
         else []))"

definition register :: "env \<Rightarrow> (string \<Rightarrow> bool) \<Rightarrow> db \<Rightarrow> request \<Rightarrow> response \<times> db" where
  "register e email_matches d req =
     (case findOne_email (users d) (body_email req) of
        Some found \<Rightarrow> (reply 400 [(''message'', JStr ''User already exists'')], d)
      | None \<Rightarrow>
          (let nm = trim (body_name req);
               em = lowercase (trim (body_email req))
           in case validate_user email_matches nm em (body_password req) of
                Some err \<Rightarrow> (server_error err, d)
              | None \<Rightarrow>
                  (let uid = new_id e;
                       u = \<lparr>name = nm, email = em,
                            password = Some (bcrypt_hash e (or_default (body_password req) [])),
                            profileImage = [], bio = [], skills = [], location = [],
                            savedJobs = [], appliedJobs = [], joinedCommunities = [],
                            notifiedCommunities = []\<rparr>;
                       d1 = d\<lparr>users := users d @ [(uid, u)]\<rparr>
                   in case generateToken e uid of
                        Inl err \<Rightarrow> (server_error err, d1)
                      | Inr token \<Rightarrow> (token_response 201 uid u token, d1))))"

definition invalid_credentials :: response where
  "invalid_credentials = reply 401 [(''message'', JStr ''Invalid email or password'')]"

definition matchPassword :: "env \<Rightarrow> user \<Rightarrow> string option \<Rightarrow> exn + bool" where
  \<comment> \<open>\<open>UserSchema.methods.matchPassword\<close>: \<open>bcrypt.compare\<close> rejects unless it is
      given two strings\<close>
  "matchPassword e u entered =
     (case entered of
        None \<Rightarrow>
          (case password u of
             None \<Rightarrow> Inl (Exn ''Error'' ''Illegal arguments: undefined, undefined'' None)
           | Some h \<Rightarrow> Inl (Exn ''Error'' ''Illegal arguments: undefined, string'' None))
      | Some pw \<Rightarrow>
          (case password u of
             None \<Rightarrow> Inl (Exn ''Error'' ''Illegal arguments: string, undefined'' None)
           | Some h \<Rightarrow> Inr (bcrypt_compare e pw h)))"

definition login :: "env \<Rightarrow> db \<Rightarrow> request \<Rightarrow> response \<times> db" where
  "login e d req =
     (case findOne_email (users d) (body_email req) of
        None \<Rightarrow> (invalid_credentials, d)
      | Some (uid, u) \<Rightarrow>
          (case matchPassword e u (body_password req) of
             Inl err \<Rightarrow> (server_error err, d)
           | Inr isMatch \<Rightarrow>
               if \<not> isMatch then (invalid_credentials, d)
               else (case generateToken e uid of
                       Inl err \<Rightarrow> (server_error err, d)
                     | Inr token \<Rightarrow> (token_response 200 uid u token, d))))"

definition getMe :: "db \<Rightarrow> oid \<times> user \<Rightarrow> response" where
  "getMe d actor =
     (case findById (users d) (user_id actor) of
        Inl err \<Rightarrow> server_error err
      | Inr None \<Rightarrow>
          server_error (Exn ''TypeError'' ''Cannot read properties of null'' None)
      | Inr (Some u) \<Rightarrow>
          reply 200
            [(''success'', JBool True),
             (''user'', JObj
                [(''id'', JStr (user_id actor)),
                 (''name'', JStr (name u)),
                 (''email'', JStr (email u)),
                 (''profileImage'', JStr (profileImage u)),
                 (''bio'', JStr (bio u)),
                 (''skills'', JArr (map JStr (skills u))),
                 (''location'', JStr (location u)),
                 (''joinedCommunities'', JArr (map JStr (joinedCommunities u))),
                 (''notifiedCommunities'', JArr (map JStr (notifiedCommunities u))),
                 (''savedJobs'', JArr (map JStr (savedJobs u))),
                 (''appliedJobs'', applied_refs u)])])"

section \<open>Profile reads\<close>

text \<open>
  \<open>populate\<close> puts a document in place of a reference, loaded with the selected paths
  only, and \<open>res.json\<close> prints it with these paths and the virtuals of its schema.  The
  virtual \<open>memberCount\<close> of a community is \<open>this.members ? this.members.length : 0\<close>;
  the virtual \<open>applicantCount\<close> of a job is \<open>this.applicants.length\<close>, which throws a
  \<open>TypeError\<close> on a document loaded without its applicants.  The argument of the two
  virtuals is the path as the document holds it: \<open>None\<close> when it was not selected.
\<close>

definition memberCount :: "oid list option \<Rightarrow> int" where
  "memberCount loaded = (case loaded of None \<Rightarrow> 0 | Some ms \<Rightarrow> int (length ms))"

definition applicantCount :: "applicant list option \<Rightarrow> exn + int" where
  "applicantCount loaded =
     (case loaded of
        None \<Rightarrow>
          Inl (Exn ''TypeError'' ''Cannot read properties of undefined (reading 'length')'' None)
      | Some as \<Rightarrow> Inr (int (length as)))"

definition populated_community :: "oid \<Rightarrow> community \<Rightarrow> json" where
  \<comment> \<open>a community loaded with \<open>select: "name image memberCount"\<close>, as printed\<close>
  "populated_community cid c = JObj
     [(''_id'', JStr cid),
      (''name'', JStr (c_name c)),
      (''image'', JStr (c_image c)),
      (''memberCount'', JNum (memberCount None)),
      (''id'', JStr cid)]"

definition populated_job :: "oid \<Rightarrow> job \<Rightarrow> exn + json" where
  \<comment> \<open>a job loaded with \<open>select: "title company location type"\<close>, as printed\<close>
  "populated_job jid j =
     (case applicantCount None of
        Inl err \<Rightarrow> Inl err
      | Inr n \<Rightarrow>
          Inr (JObj
            [(''_id'', JStr jid),
             (''title'', JStr (j_title j)),
             (''company'', JStr (j_company j)),
             (''location'', JStr (j_location j)),
             (''type'', JStr (j_type j)),
             (''applicantCount'', JNum n),
             (''id'', JStr jid)]))"

fun print_all :: "(exn + json) list \<Rightarrow> exn + json list" where
  \<comment> \<open>the elements of an array are printed in order; the first error ends the printing\<close>
  "print_all [] = Inr []"
| "print_all (x # xs) =
     (case x of
        Inl err \<Rightarrow> Inl err
      | Inr v \<Rightarrow> (case print_all xs of Inl err \<Rightarrow> Inl err | Inr vs \<Rightarrow> Inr (v # vs)))"

definition populate_joined :: "db \<Rightarrow> user \<Rightarrow> json" where
  \<comment> \<open>the joined communities after \<open>populate("joinedCommunities", ...)\<close>, as
      printed: a reference with no document is dropped\<close>
  "populate_joined d u =
     JArr (concat (map (\<lambda>cid. case map_of (communities d) cid of
                                 None \<Rightarrow> []
                               | Some c \<Rightarrow> [populated_community cid c])
                       (joinedCommunities u)))"

definition populate_applied :: "db \<Rightarrow> user \<Rightarrow> exn + json" where
  \<comment> \<open>the applied jobs after \<open>populate("appliedJobs.job", ...)\<close>, as \<open>res.json\<close>
      prints them: a reference with no document is \<open>null\<close>, and the printing of a
      populated job throws\<close>
  "populate_applied d u =
     (case print_all
             (map (\<lambda>a. case map_of (jobs d) (aj_job a) of
                          None \<Rightarrow> Inr (applied_job_json JNull a)
                        | Some j \<Rightarrow>
                            (case populated_job (aj_job a) j of
                               Inl err \<Rightarrow> Inl err
                             | Inr v \<Rightarrow> Inr (applied_job_json v a)))
                  (appliedJobs u)) of
        Inl err \<Rightarrow> Inl err
      | Inr vs \<Rightarrow> Inr (JArr vs))"

definition profile_db_error :: "exn \<Rightarrow> response" where
  \<comment> \<open>the inner \<open>catch (dbError)\<close> of \<open>getMyProfile\<close>\<close>
  "profile_db_error err =
     (if ename err = ''CastError'' then
        reply 400 [(''success'', JBool False), (''message'', JStr ''Invalid user ID format''),
                   (''error'', JStr (emessage err))]
      else if ename err = ''ValidationError'' then
        reply 400 [(''success'', JBool False), (''message'', JStr ''Validation error''),
                   (''error'', JStr (emessage err))]
      else
        reply 500 [(''success'', JBool False),
                   (''message'', JStr ''Database error occurred while retrieving profile''),
                   (''error'', JStr (emessage err))])"

definition getMyProfile :: "db \<Rightarrow> oid \<times> user \<Rightarrow> response" where
  \<comment> \<open>\<open>res.json\<close> is called inside the inner \<open>try\<close>, so an error of the printing is
      answered by the inner \<open>catch\<close>\<close>
  "getMyProfile d actor =
     (let uid = user_id actor in
      if uid = [] then
        reply 400
          [(''success'', JBool False),
           (''message'', JStr ''User information missing from request''),
           (''error'', JStr ''Authentication may have failed or user session is invalid'')]
      else (case findById (users d) uid of
              Inl err \<Rightarrow> profile_db_error err
            | Inr None \<Rightarrow>
                reply 404
                  [(''success'', JBool False), (''message'', JStr ''User not found''),
                   (''error'', JStr ''The user profile could not be located'')]
            | Inr (Some stored) \<Rightarrow>
                (let u = deselect_password stored
                 in case populate_applied d u of
                      Inl err \<Rightarrow> profile_db_error err
                    | Inr applied \<Rightarrow>
                        reply 200
                          [(''success'', JBool True),
                           (''data'', JObj (user_fields uid u
                              [(''appliedJobs'', applied)]
                              [(''joinedCommunities'', populate_joined d u)]))])))"

definition getUserProfile :: "db \<Rightarrow> request \<Rightarrow> response" where
  "getUserProfile d req =
     (let uid = params_id req in
      case findById (users d) uid of
        Inl err \<Rightarrow> catch_or_404 ''User not found'' err
      | Inr None \<Rightarrow> reply 404 [(''message'', JStr ''User not found'')]
      | Inr (Some stored) \<Rightarrow>
          reply 200
            [(''success'', JBool True),
             (''data'', JObj
                (filter (\<lambda>kv. fst kv \<notin> set [''password'', ''email'', ''savedJobs'',
                                                ''appliedJobs'', ''notifiedCommunities''])
                   (user_fields (to_oid uid) stored
                      [(''appliedJobs'', applied_refs stored)]
                      [(''joinedCommunities'', populate_joined d stored)])))])"

section \<open>Observations on requests, stores and responses\<close>

text \<open>
  \<open>acts_as d actor req u\<close>: the handlers with optional authentication work with the
  string \<open>u\<close> as the id of the one who makes the request, either because the middleware
  verified a token and \<open>u\<close> is \<open>req.user.id\<close>, or because \<open>u\<close> is the
  \<open>userId\<close> of the body and finds a user of the store.  \<open>user_of\<close>,
  \<open>community_of\<close>, \<open>post_of\<close> and \<open>job_of\<close> give the document that an id
  finds, \<open>has_saved d u j\<close> says that the job that \<open>j\<close> finds is among the saved
  jobs of the user that \<open>u\<close> finds, \<open>has_applied u j\<close> that the user that \<open>u\<close>
  finds is among the applicants of the job \<open>j\<close>.
\<close>

definition acts_as :: "db \<Rightarrow> (oid \<times> user) option \<Rightarrow> request \<Rightarrow> string \<Rightarrow> bool" where
  "acts_as d actor req u =
     (u \<noteq> [] \<and>
      (case actor of
         Some a \<Rightarrow> user_id a = u
       | None \<Rightarrow>
           body_userId req = Some u \<and> is_object_id u \<and> map_of (users d) (to_oid u) \<noteq> None))"

definition user_of :: "db \<Rightarrow> string \<Rightarrow> user option" where
  "user_of d uid = map_of (users d) (to_oid uid)"

definition community_of :: "db \<Rightarrow> string \<Rightarrow> community option" where
  "community_of d cid = map_of (communities d) (to_oid cid)"

definition post_of :: "db \<Rightarrow> string \<Rightarrow> post option" where
  "post_of d pid = map_of (posts d) (to_oid pid)"

definition job_of :: "db \<Rightarrow> string \<Rightarrow> job option" where
  "job_of d jid = map_of (jobs d) (to_oid jid)"

definition has_saved :: "db \<Rightarrow> string \<Rightarrow> string \<Rightarrow> bool" where
  "has_saved d u j =
     (case user_of d u of None \<Rightarrow> False | Some usr \<Rightarrow> to_oid j \<in> set (savedJobs usr))"

definition has_applied :: "string \<Rightarrow> job \<Rightarrow> bool" where
  "has_applied u j = (to_oid u \<in> ap_user ` set (applicants j))"

definition deadline_passed :: "env \<Rightarrow> job \<Rightarrow> bool" where
  "deadline_passed e j = (case applicationDeadline j of None \<Rightarrow> False | Some t \<Rightarrow> t < now e)"

definition sole_moderator_among_others :: "oid \<Rightarrow> community \<Rightarrow> bool" where
  "sole_moderator_among_others u c =
     (u \<in> set (moderators c) \<and> length (moderators c) = 1 \<and> length (members c) > 1)"

definition communities_ok :: "db \<Rightarrow> bool" where
  \<comment> \<open>the data model's invariant: the moderators of a community are among its members\<close>
  "communities_ok d =
     list_all (\<lambda>kc. set (moderators (snd kc)) \<subseteq> set (members (snd kc))) (communities d)"

definition json_field :: "string \<Rightarrow> response \<Rightarrow> json option" where
  "json_field k r = (case body r of JObj kvs \<Rightarrow> map_of kvs k | _ \<Rightarrow> None)"

definition message_of :: "response \<Rightarrow> string option" where
  "message_of r = (case json_field ''message'' r of Some (JStr m) \<Rightarrow> Some m | _ \<Rightarrow> None)"

section \<open>A sample store\<close>

definition alice_id :: oid where "alice_id = ''aaaaaaaaaaaaaaaaaaaaaaaa''"
definition bob_id :: oid where "bob_id = ''bbbbbbbbbbbbbbbbbbbbbbbb''"
definition carol_id :: oid where "carol_id = ''cccccccccccccccccccccccc''"
definition club_id :: oid where "club_id = ''dddddddddddddddddddddddd''"
definition note_id :: oid where "note_id = ''eeeeeeeeeeeeeeeeeeeeeeee''"
definition gig_id :: oid where "gig_id = ''ffffffffffffffffffffffff''"
definition next_id :: oid where "next_id = ''000000000000000000000001''"

text \<open>The ids of Alice and Bob as a request may write them: the same digits, in capitals.\<close>

definition alice_in_capitals :: string where
  "alice_in_capitals = ''AAAAAAAAAAAAAAAAAAAAAAAA''"

definition bob_in_capitals :: string where
  "bob_in_capitals = ''BBBBBBBBBBBBBBBBBBBBBBBB''"

definition member_of_staff :: "string \<Rightarrow> string \<Rightarrow> user" where
  "member_of_staff nm em =
     \<lparr>name = nm, email = em, password = Some (''hash:'' @ nm), profileImage = [], bio = [],
      skills = [], location = [], savedJobs = [], appliedJobs = [],
      joinedCommunities = [], notifiedCommunities = []\<rparr>"

definition alice :: user where
  "alice = (member_of_staff ''Alice'' ''alice@example.com'')
     \<lparr>joinedCommunities := [club_id], notifiedCommunities := [club_id],
      appliedJobs := [\<lparr>aj_job = gig_id, aj_status = ''applied'', aj_appliedAt = 5\<rparr>]\<rparr>"

definition bob :: user where
  "bob = (member_of_staff ''Bob'' ''bob@example.com'')
     \<lparr>joinedCommunities := [club_id], notifiedCommunities := [club_id]\<rparr>"

definition carol :: user where
  "carol = member_of_staff ''Carol'' ''carol@example.com''"

definition club :: community where
  "club = \<lparr>c_name = ''Club'', c_description = ''A club'', c_image = [],
           members = [alice_id, bob_id],
           moderators = [alice_id], c_posts = [note_id], createdBy = alice_id\<rparr>"

definition hello_note :: post where
  "hello_note = \<lparr>p_title = ''Hello'', p_content = ''First post'', p_images = [],
           p_author = Some alice_id, p_authorName = ''Alice'', p_community = club_id,
           likes = [alice_id], p_tags = []\<rparr>"

definition gig :: job where
  "gig = \<lparr>j_title = ''Engineer'', j_company = ''Acme'', j_location = ''Pune'',
          j_type = ''Full-time'', applicationDeadline = Some 2000, postedBy = carol_id,
          applicants = [\<lparr>ap_user = alice_id, ap_status = ''applied'', ap_appliedAt = 5,
                         ap_resume = None, ap_coverLetter = None\<rparr>]\<rparr>"

definition sample_db :: db where
  "sample_db = \<lparr>users = [(alice_id, alice), (bob_id, bob), (carol_id, carol)],
                 communities = [(club_id, club)],
                 posts = [(note_id, hello_note)],
                 jobs = [(gig_id, gig)]\<rparr>"

definition sample_verify :: "string \<Rightarrow> string option \<Rightarrow> exn + string" where
  "sample_verify tok key =
     (if key \<noteq> Some ''k3y'' then
        Inl (Exn ''JsonWebTokenError'' ''secret or public key must be provided'' None)
      else if tok = ''alice-token'' then Inr alice_id
      else if tok = ''ghost-token'' then Inr next_id
      else if tok = ''short-token'' then Inr ''abc''
      else if tok = ''old-token'' then Inl (Exn ''TokenExpiredError'' ''jwt expired'' None)
      else if tok = ''early-token'' then Inl (Exn ''NotBeforeError'' ''jwt not active'' None)
      else Inl (Exn ''JsonWebTokenError'' ''jwt malformed'' None))"

definition sample_env :: env where
  "sample_env =
     \<lparr>jwt_secret = Some ''k3y'',
      jwt_verify = sample_verify,
      jwt_sign = (\<lambda>key uid. ''signed:'' @ uid),
      bcrypt_compare = (\<lambda>pw h. h = ''hash:'' @ pw),
      bcrypt_hash = (\<lambda>pw. ''hash:'' @ pw),
      now = 1000,
      new_id = next_id\<rparr>"

definition blank_request :: request where
  "blank_request =
     \<lparr>cookie_token = None, cookie_auth_token = None, authorization = None, params_id = [],
      body_userId = None, body_authorName = None, body_title = None, body_content = None,
      body_images = [], body_tags = [], body_name = [], body_description = [],
      body_image = None, body_email = [], body_password = None, body_resume = None,
      body_coverLetter = None\<rparr>"

section \<open>Lemmas on the store and the sample data\<close>

lemma is_hex_lower_hex [simp]: "is_hex (lower_hex c) = is_hex c"
  by (auto simp: is_hex_def lower_hex_def)

lemma lower_hex_idem [simp]: "lower_hex (lower_hex c) = lower_hex c"
  by (simp add: lower_hex_def)

lemma to_oid_idem [simp]: "to_oid (to_oid s) = to_oid s"
  by (simp add: to_oid_def)

lemma is_object_id_to_oid [simp]: "is_object_id (to_oid s) = is_object_id s"
  by (simp add: is_object_id_def to_oid_def list_all_iff)

lemma to_oid_empty [simp]: "(to_oid s = []) = (s = [])"
  by (simp add: to_oid_def)

lemma user_id_canonical [simp]: "to_oid (user_id a) = user_id a"
  by (simp add: user_id_def)

lemma user_of_update_user:
  "user_of (update_user k f d) k' =
     (if to_oid k' = to_oid k then map_option f (user_of d k) else user_of d k')"
  by (auto simp: user_of_def update_user_def map_of_map_entry split: option.splits)

lemma user_of_save [simp]:
  "user_of (save_community cid c d) k = user_of d k"
  "user_of (save_post pid p d) k = user_of d k"
  "user_of (insert_post pid p d) k = user_of d k"
  "user_of (save_job jid j d) k = user_of d k"
  by (simp_all add: user_of_def save_community_def save_post_def insert_post_def save_job_def)

lemma community_of_frame [simp]:
  "community_of (update_user k f d) cid = community_of d cid"
  "community_of (save_post pid p d) cid = community_of d cid"
  "community_of (insert_post pid p d) cid = community_of d cid"
  by (simp_all add: community_of_def update_user_def save_post_def insert_post_def)

lemma community_of_save_community:
  "community_of (save_community cid c d) k =
     (if to_oid k = to_oid cid then Some c else community_of d k)"
  by (simp add: community_of_def save_community_def update_conv')

lemma post_of_save_post:
  "post_of (save_post pid p d) k = (if to_oid k = to_oid pid then Some p else post_of d k)"
  by (simp add: post_of_def save_post_def update_conv')

lemma posts_frame [simp]:
  "posts (save_community cid c d) = posts d"
  "posts (update_user k f d) = posts d"
  by (simp_all add: save_community_def update_user_def)

lemma job_of_update_user [simp]: "job_of (update_user k f d) j = job_of d j"
  by (simp add: job_of_def update_user_def)

lemma job_of_save_job:
  "job_of (save_job jid j d) k = (if to_oid k = to_oid jid then Some j else job_of d k)"
  by (simp add: job_of_def save_job_def update_conv')

lemma acts_as_update_user:
  "acts_as d actor req u \<Longrightarrow> acts_as (update_user k f d) actor req u"
  using user_of_update_user [of k f d u]
  by (auto simp: acts_as_def user_of_def split: option.splits if_splits)

lemma acts_as_save_community:
  "acts_as (save_community cid c d) actor req u = acts_as d actor req u"
  by (auto simp: acts_as_def save_community_def split: option.splits)

lemma acts_as_resolve_member:
  "acts_as d actor req u \<Longrightarrow> resolve_member_id d actor req = Inr (Some u)"
  by (auto simp: acts_as_def resolve_member_id_def findById_def split: option.splits prod.splits)

lemma acts_as_resolve_liker:
  "acts_as d actor req u \<Longrightarrow> resolve_liker d actor req = Inr (Some u)"
  by (auto simp: acts_as_def resolve_liker_def findById_def split: option.splits prod.splits)


lemma sample_ids:
  "is_object_id alice_id" "is_object_id bob_id" "is_object_id carol_id"
  "is_object_id club_id" "is_object_id note_id" "is_object_id gig_id" "is_object_id next_id"
  "is_object_id alice_in_capitals" "is_object_id bob_in_capitals"
  by (simp_all add: is_object_id_def is_hex_def alice_id_def bob_id_def carol_id_def
      club_id_def note_id_def gig_id_def next_id_def alice_in_capitals_def
      bob_in_capitals_def)

lemma sample_ids_printed:
  "to_oid alice_id = alice_id" "to_oid bob_id = bob_id" "to_oid carol_id = carol_id"
  "to_oid club_id = club_id" "to_oid note_id = note_id" "to_oid gig_id = gig_id"
  "to_oid next_id = next_id" "to_oid alice_in_capitals = alice_id"
  "to_oid bob_in_capitals = bob_id"
  by (simp_all add: to_oid_def lower_hex_def alice_id_def bob_id_def carol_id_def
      club_id_def note_id_def gig_id_def next_id_def alice_in_capitals_def
      bob_in_capitals_def)

lemma sample_users:
  "user_of sample_db alice_id = Some alice" "user_of sample_db bob_id = Some bob"
  "user_of sample_db carol_id = Some carol" "user_of sample_db next_id = None"
  "user_of sample_db alice_in_capitals = Some alice"
  "user_of sample_db bob_in_capitals = Some bob"
  by (simp_all add: user_of_def sample_ids_printed)
     (simp_all add: sample_db_def alice_id_def bob_id_def carol_id_def next_id_def)

lemma sample_documents:
  "community_of sample_db club_id = Some club" "post_of sample_db note_id = Some hello_note"
  "job_of sample_db gig_id = Some gig"
  by (simp_all add: community_of_def post_of_def job_of_def sample_ids_printed)
     (simp_all add: sample_db_def)

lemma sample_store_ok: "communities_ok sample_db"
  by (simp add: communities_ok_def sample_db_def club_def)

lemma sample_ids_differ:
  "alice_id \<noteq> bob_id" "alice_id \<noteq> carol_id" "bob_id \<noteq> carol_id"
  "bob_id \<noteq> alice_id" "carol_id \<noteq> alice_id" "carol_id \<noteq> bob_id"
  "alice_id \<noteq> []" "bob_id \<noteq> []" "carol_id \<noteq> []"
  "alice_in_capitals \<noteq> alice_id" "alice_in_capitals \<noteq> bob_id" "alice_in_capitals \<noteq> []"
  "bob_in_capitals \<noteq> alice_id" "bob_in_capitals \<noteq> bob_id" "bob_in_capitals \<noteq> []"
  by (simp_all add: alice_id_def bob_id_def carol_id_def alice_in_capitals_def
      bob_in_capitals_def)

lemma sample_actors:
  "acts_as sample_db (Some (alice_id, alice)) req alice_id"
  "acts_as sample_db (Some (bob_id, bob)) req bob_id"
  "acts_as sample_db (Some (carol_id, carol)) req carol_id"
  by (simp_all add: acts_as_def user_id_def sample_ids_printed sample_ids_differ)

lemma sample_body_actors:
  "acts_as sample_db None (req\<lparr>body_userId := Some alice_id\<rparr>) alice_id"
  "acts_as sample_db None (req\<lparr>body_userId := Some alice_in_capitals\<rparr>) alice_in_capitals"
  "acts_as sample_db None (req\<lparr>body_userId := Some bob_id\<rparr>) bob_id"
  "acts_as sample_db None (req\<lparr>body_userId := Some carol_id\<rparr>) carol_id"
  "acts_as sample_db None (req\<lparr>body_userId := Some bob_in_capitals\<rparr>) bob_in_capitals"
  using sample_users sample_ids sample_ids_differ
  by (simp_all add: acts_as_def user_of_def)

section \<open>Moderators are members\<close>

text \<open>
  The handlers that write a community (create, join, leave and create post) keep the
  moderators of every community among its members: a store that starts with this property
  keeps it.
\<close>

lemma communities_ok_lookup:
  "communities_ok d \<Longrightarrow> community_of d cid = Some c \<Longrightarrow>
     set (moderators c) \<subseteq> set (members c)"
proof -
  assume ok: "communities_ok d" and c: "community_of d cid = Some c"
  from c have "(to_oid cid, c) \<in> set (communities d)"
    by (simp add: community_of_def map_of_SomeD)
  with ok show ?thesis
    by (force simp: communities_ok_def list_all_iff)
qed

lemma list_all_update:
  "list_all P al \<Longrightarrow> P (k, v) \<Longrightarrow> list_all P (AList.update k v al)"
  by (induction al) auto

lemma communities_ok_save:
  "communities_ok d \<Longrightarrow> set (moderators c) \<subseteq> set (members c) \<Longrightarrow>
     communities_ok (save_community cid c d)"
  by (simp add: communities_ok_def save_community_def list_all_update)

lemma communities_ok_frame [simp]:
  "communities_ok (update_user k f d) = communities_ok d"
  "communities_ok (save_post pid p d) = communities_ok d"
  "communities_ok (insert_post pid p d) = communities_ok d"
  "communities_ok (save_job jid j d) = communities_ok d"
  by (simp_all add: communities_ok_def update_user_def save_post_def insert_post_def
      save_job_def)

lemma findById_community:
  "findById (communities d) cid = Inr (Some c) \<Longrightarrow> community_of d cid = Some c"
  by (auto simp: findById_def community_of_def split: if_splits)

lemma join_keeps_ok:
  assumes "communities_ok d"
  shows "communities_ok (snd (joinCommunity d actor req))"
proof (cases "findById (communities d) (params_id req)")
  case (Inl err)
  then show ?thesis using assms by (simp add: joinCommunity_def Let_def)
next
  case (Inr found)
  show ?thesis
  proof (cases found)
    case None
    then show ?thesis using assms Inr by (simp add: joinCommunity_def Let_def)
  next
    case (Some c)
    have sub: "set (moderators c) \<subseteq> set (members c)"
      using communities_ok_lookup [OF assms findById_community] Inr Some by simp
    then have "set (moderators (c\<lparr>members := members c @ [u]\<rparr>))
               \<subseteq> set (members (c\<lparr>members := members c @ [u]\<rparr>))" for u
      by auto
    then show ?thesis
      using assms Inr Some
      by (auto simp: joinCommunity_def Let_def communities_ok_save
          split: sum.splits option.splits)
  qed
qed

lemma leave_keeps_ok:
  assumes "communities_ok d"
  shows "communities_ok (snd (leaveCommunity d actor req))"
proof (cases "findById (communities d) (params_id req)")
  case (Inl err)
  then show ?thesis using assms by (simp add: leaveCommunity_def Let_def)
next
  case (Inr found)
  show ?thesis
  proof (cases found)
    case None
    then show ?thesis using assms Inr by (simp add: leaveCommunity_def Let_def)
  next
    case (Some c)
    have sub: "set (moderators c) \<subseteq> set (members c)"
      using communities_ok_lookup [OF assms findById_community] Inr Some by simp
    then have "set (moderators (c\<lparr>members := filter (\<lambda>m. m \<noteq> u) (members c),
                                  moderators := filter (\<lambda>m. m \<noteq> u) (moderators c)\<rparr>))
               \<subseteq> set (members (c\<lparr>members := filter (\<lambda>m. m \<noteq> u) (members c),
                                    moderators := filter (\<lambda>m. m \<noteq> u) (moderators c)\<rparr>))" for u
      by auto
    then show ?thesis
      using assms Inr Some
      by (auto simp: leaveCommunity_def Let_def communities_ok_save
          split: sum.splits option.splits)
  qed
qed

lemma create_community_keeps_ok:
  assumes "communities_ok d"
  shows "communities_ok (snd (createCommunity e d actor req))"
  using assms
  by (auto simp: createCommunity_def Let_def communities_ok_def update_user_def
      split: option.splits)

lemma ensure_member_keeps_ok:
  assumes "ensure_member cid c author d = (c1, d1)"
      and "communities_ok d" "set (moderators c) \<subseteq> set (members c)"
  shows "communities_ok d1 \<and> set (moderators c1) \<subseteq> set (members c1)"
  using assms
  by (auto simp: ensure_member_def Let_def split: option.splits if_splits
      intro!: communities_ok_save)

lemma create_post_keeps_ok:
  assumes "communities_ok d"
  shows "communities_ok (snd (createPost e d actor req))"
proof (cases "findById (communities d) (params_id req)")
  case (Inl err)
  then show ?thesis using assms by (simp add: createPost_def Let_def)
next
  case (Inr found)
  show ?thesis
  proof (cases found)
    case None
    then show ?thesis using assms Inr by (simp add: createPost_def Let_def)
  next
    case (Some c)
    have sub: "set (moderators c) \<subseteq> set (members c)"
      using communities_ok_lookup [OF assms findById_community] Inr Some by simp
    show ?thesis
    proof (cases "resolve_author d actor req")
      case (Inl err)
      then show ?thesis using assms Inr Some by (simp add: createPost_def Let_def)
    next
      case ra: (Inr resolved)
      obtain author nm where r: "resolved = (author, nm)" by (cases resolved)
      obtain c1 d1 where em: "ensure_member (params_id req) c author d = (c1, d1)"
        by (cases "ensure_member (params_id req) c author d")
      note k = ensure_member_keeps_ok [OF em assms sub]
      have "set (moderators (c1\<lparr>c_posts := c_posts c1 @ [new_id e]\<rparr>))
            \<subseteq> set (members (c1\<lparr>c_posts := c_posts c1 @ [new_id e]\<rparr>))"
        using k by simp
      then show ?thesis
        using k Inr Some ra r em
        by (simp add: createPost_def Let_def communities_ok_save split: option.splits)
    qed
  qed
qed

section \<open>The optional middleware never blocks\<close>

text \<open>
  C8.  Whatever the request, the optional middleware calls \<open>next()\<close>: it never sends
  a response.  When the request carries no credential, when \<open>jwt.verify\<close> throws (a bad
  or expired signature, or no key), and when the decoded id names no user of the store (or
  cannot be looked up), it continues with no user attached.  Only a credential that
  verifies to a user of the store attaches that user, loaded without the password.
\<close>

theorem optional_auth_never_blocks:
  "(\<forall>r. optionalAuthMiddleware e d req \<noteq> Halted r) \<and>
   (\<not> truthy (bearer_token req) \<longrightarrow> optionalAuthMiddleware e d req = Proceed None) \<and>
   (\<forall>t err. bearer_token req = Some t \<and> jwt_verify e t (jwt_secret e) = Inl err \<longrightarrow>
       optionalAuthMiddleware e d req = Proceed None) \<and>
   (\<forall>t i. bearer_token req = Some t \<and> jwt_verify e t (jwt_secret e) = Inr i \<and>
       (\<forall>u. findById (users d) i \<noteq> Inr (Some u)) \<longrightarrow>
       optionalAuthMiddleware e d req = Proceed None) \<and>
   (\<forall>t i u. bearer_token req = Some t \<and> t \<noteq> [] \<and> jwt_verify e t (jwt_secret e) = Inr i \<and>
       findById (users d) i = Inr (Some u) \<longrightarrow>
       optionalAuthMiddleware e d req = Proceed (Some (i, u\<lparr>password := None\<rparr>)))"
  by (auto simp: optionalAuthMiddleware_def truthy_def deselect_password_def
      split: option.splits sum.splits)

theorem optional_auth_never_blocks_witness:
  "optionalAuthMiddleware sample_env sample_db blank_request = Proceed None \<and>
   optionalAuthMiddleware sample_env sample_db
     (blank_request\<lparr>cookie_token := Some ''old-token''\<rparr>) = Proceed None \<and>
   optionalAuthMiddleware sample_env sample_db
     (blank_request\<lparr>authorization := Some ''Bearer ghost-token''\<rparr>) = Proceed None \<and>
   optionalAuthMiddleware sample_env sample_db
     (blank_request\<lparr>cookie_auth_token := Some ''alice-token''\<rparr>) =
       Proceed (Some (alice_id, alice\<lparr>password := None\<rparr>))"
proof -
  have none: "\<not> truthy (bearer_token blank_request)"
    by (simp add: bearer_token_def blank_request_def js_or_def truthy_def)
  have old: "bearer_token (blank_request\<lparr>cookie_token := Some ''old-token''\<rparr>) = Some ''old-token''"
    "jwt_verify sample_env ''old-token'' (jwt_secret sample_env) =
       Inl (Exn ''TokenExpiredError'' ''jwt expired'' None)"
    by (simp_all add: bearer_token_def blank_request_def js_or_def truthy_def sample_env_def
        sample_verify_def)
  have ghost: "bearer_token (blank_request\<lparr>authorization := Some ''Bearer ghost-token''\<rparr>) =
       Some ''ghost-token''"
    "jwt_verify sample_env ''ghost-token'' (jwt_secret sample_env) = Inr next_id"
    "\<forall>u. findById (users sample_db) next_id \<noteq> Inr (Some u)"
    using sample_users(4)
    by (simp_all add: bearer_token_def blank_request_def js_or_def truthy_def sample_env_def
        sample_verify_def startsWith_def nth_opt_def findById_def user_of_def)
  have good: "bearer_token (blank_request\<lparr>cookie_auth_token := Some ''alice-token''\<rparr>) =
       Some ''alice-token''"
    "jwt_verify sample_env ''alice-token'' (jwt_secret sample_env) = Inr alice_id"
    "findById (users sample_db) alice_id = Inr (Some alice)"
    using sample_users(1) sample_ids(1)
    by (simp_all add: bearer_token_def blank_request_def js_or_def truthy_def sample_env_def
        sample_verify_def findById_def user_of_def)
  show ?thesis
    using optional_auth_never_blocks [of sample_env sample_db blank_request] none
      optional_auth_never_blocks [of sample_env sample_db
        "blank_request\<lparr>cookie_token := Some ''old-token''\<rparr>"] old
      optional_auth_never_blocks [of sample_env sample_db
        "blank_request\<lparr>authorization := Some ''Bearer ghost-token''\<rparr>"] ghost
      optional_auth_never_blocks [of sample_env sample_db
        "blank_request\<lparr>cookie_auth_token := Some ''alice-token''\<rparr>"] good
    by simp
qed

section \<open>The mandatory middleware\<close>

lemma split_on_prefix: "c \<notin> set p \<Longrightarrow> split_on c (p @ c # t) = p # split_on c t"
  by (induction p) (auto split: list.splits)

lemma split_on_no_separator: "c \<notin> set t \<Longrightarrow> split_on c t = [t]"
  by (induction t) (auto split: list.splits)

lemma bearer_header_token:
  "CHR '' '' \<notin> set t \<Longrightarrow> nth_opt (split_on CHR '' '' (''Bearer '' @ t)) 1 = Some t"
  using split_on_prefix [of "CHR '' ''" "''Bearer''" t] split_on_no_separator [of "CHR '' ''" t]
  by (simp add: nth_opt_def)

lemma token_priority:
  "(truthy (cookie_token req) \<longrightarrow> bearer_token req = cookie_token req) \<and>
   (\<not> truthy (cookie_token req) \<and> truthy (cookie_auth_token req) \<longrightarrow>
      bearer_token req = cookie_auth_token req)"
  by (auto simp: bearer_token_def js_or_def truthy_def)

lemma token_of_header:
  assumes "\<not> truthy (cookie_token req)" and "\<not> truthy (cookie_auth_token req)"
  shows "(\<forall>h. authorization req = Some h \<and> startsWith h ''Bearer'' \<longrightarrow>
            bearer_token req = nth_opt (split_on CHR '' '' h) 1) \<and>
         (authorization req = Some (''Bearer '' @ t) \<and> CHR '' '' \<notin> set t \<longrightarrow>
            bearer_token req = Some t) \<and>
         ((\<forall>h. authorization req = Some h \<longrightarrow> \<not> startsWith h ''Bearer'') \<longrightarrow>
            bearer_token req = None)"
proof -
  have exact: "bearer_token req = nth_opt (split_on CHR '' '' h) 1"
    if "authorization req = Some h" "startsWith h ''Bearer''" for h
  proof -
    have "h \<noteq> []" using that(2) by (auto simp: startsWith_def)
    then show ?thesis
      using assms that by (simp add: bearer_token_def js_or_def truthy_def)
  qed
  have bearer: "bearer_token req = Some t"
    if "authorization req = Some (''Bearer '' @ t)" "CHR '' '' \<notin> set t"
    using exact [OF that(1)] bearer_header_token [OF that(2)] by (simp add: startsWith_def)
  have other: "bearer_token req = None"
    if "\<forall>h. authorization req = Some h \<longrightarrow> \<not> startsWith h ''Bearer''"
    using assms that by (auto simp: bearer_token_def js_or_def split: option.splits)
  show ?thesis using exact bearer other by blast
qed

lemma token_error_status: "status (token_error_response err) = 401"
  by (simp add: token_error_response_def token_expired_response_def invalid_token_response_def
      auth_failed_response_def reply_def)

lemma token_error_message:
  "message_of (token_error_response err) =
     Some (if ename err = ''TokenExpiredError'' then ''Authentication expired''
           else if ename err = ''JsonWebTokenError'' then ''Invalid authentication''
           else ''Authentication failed'')"
  by (simp add: token_error_response_def token_expired_response_def invalid_token_response_def
      auth_failed_response_def reply_def message_of_def json_field_def)

text \<open>
  C1, as amended.  The credential is the \<open>token\<close> cookie when it is present, else
  the \<open>auth_token\<close> cookie, else the second of the pieces that the spaces of the
  \<open>Authorization\<close> header separate, when the header begins with \<open>Bearer\<close>: for the
  header \<open>Bearer t\<close> it is \<open>t\<close>, and a header that does not begin with \<open>Bearer\<close>
  gives no credential.  A request with no credential is answered 401 and goes no further,
  whatever the configuration.  A request with a credential is answered 500 and goes no
  further when no signing key is configured.  When a key is configured: a credential that
  \<open>jwt.verify\<close> rejects is answered 401, and the message tells an expired token, a
  malformed one and any other failure apart; a credential that verifies to an id with no
  user in the store, or to a string that is no id, is answered 401; a credential that
  verifies to the id of a user of the store attaches that user, without the password, and
  the request goes on.
\<close>

theorem auth_middleware_contract:
  "(truthy (cookie_token req) \<longrightarrow> bearer_token req = cookie_token req) \<and>
   (\<not> truthy (cookie_token req) \<and> truthy (cookie_auth_token req) \<longrightarrow>
      bearer_token req = cookie_auth_token req) \<and>
   (\<not> truthy (cookie_token req) \<and> \<not> truthy (cookie_auth_token req) \<longrightarrow>
      (\<forall>h. authorization req = Some h \<and> startsWith h ''Bearer'' \<longrightarrow>
         bearer_token req = nth_opt (split_on CHR '' '' h) 1) \<and>
      (authorization req = Some (''Bearer '' @ t) \<and> CHR '' '' \<notin> set t \<longrightarrow>
         bearer_token req = Some t) \<and>
      ((\<forall>h. authorization req = Some h \<longrightarrow> \<not> startsWith h ''Bearer'') \<longrightarrow>
         bearer_token req = None)) \<and>
   (\<not> truthy (bearer_token req) \<longrightarrow>
      authMiddleware e d req = Halted no_token_response \<and> status no_token_response = 401) \<and>
   (truthy (bearer_token req) \<and> \<not> truthy (jwt_secret e) \<longrightarrow>
      authMiddleware e d req = Halted misconfigured_response \<and>
      status misconfigured_response = 500) \<and>
   (\<forall>tok. bearer_token req = Some tok \<and> tok \<noteq> [] \<and> truthy (jwt_secret e) \<longrightarrow>
      (\<forall>err. jwt_verify e tok (jwt_secret e) = Inl err \<longrightarrow>
         authMiddleware e d req = Halted (token_error_response err) \<and>
         status (token_error_response err) = 401 \<and>
         message_of (token_error_response err) =
           Some (if ename err = ''TokenExpiredError'' then ''Authentication expired''
                 else if ename err = ''JsonWebTokenError'' then ''Invalid authentication''
                 else ''Authentication failed'')) \<and>
      (\<forall>i. jwt_verify e tok (jwt_secret e) = Inr i \<and> \<not> is_object_id i \<longrightarrow>
         authMiddleware e d req = Halted auth_failed_response \<and>
         status auth_failed_response = 401) \<and>
      (\<forall>i. jwt_verify e tok (jwt_secret e) = Inr i \<and> is_object_id i \<and> user_of d i = None \<longrightarrow>
         authMiddleware e d req = Halted user_not_found_response \<and>
         status user_not_found_response = 401) \<and>
      (\<forall>i u. jwt_verify e tok (jwt_secret e) = Inr i \<and> is_object_id i \<and>
             user_of d i = Some u \<longrightarrow>
         authMiddleware e d req = Proceed (Some (i, u\<lparr>password := None\<rparr>))))"
proof -
  have missing: "\<not> truthy (bearer_token req) \<longrightarrow>
      authMiddleware e d req = Halted no_token_response \<and> status no_token_response = 401"
    by (auto simp: authMiddleware_def truthy_def no_token_response_def reply_def
        split: option.splits)
  have unkeyed: "truthy (bearer_token req) \<and> \<not> truthy (jwt_secret e) \<longrightarrow>
      authMiddleware e d req = Halted misconfigured_response \<and>
      status misconfigured_response = 500"
    by (auto simp: authMiddleware_def truthy_def misconfigured_response_def reply_def
        split: option.splits)
  have present: "\<forall>tok. bearer_token req = Some tok \<and> tok \<noteq> [] \<and> truthy (jwt_secret e) \<longrightarrow>
      (\<forall>err. jwt_verify e tok (jwt_secret e) = Inl err \<longrightarrow>
         authMiddleware e d req = Halted (token_error_response err)) \<and>
      (\<forall>i. jwt_verify e tok (jwt_secret e) = Inr i \<and> \<not> is_object_id i \<longrightarrow>
         authMiddleware e d req = Halted auth_failed_response \<and>
         status auth_failed_response = 401) \<and>
      (\<forall>i. jwt_verify e tok (jwt_secret e) = Inr i \<and> is_object_id i \<and> user_of d i = None \<longrightarrow>
         authMiddleware e d req = Halted user_not_found_response \<and>
         status user_not_found_response = 401) \<and>
      (\<forall>i u. jwt_verify e tok (jwt_secret e) = Inr i \<and> is_object_id i \<and>
             user_of d i = Some u \<longrightarrow>
         authMiddleware e d req = Proceed (Some (i, u\<lparr>password := None\<rparr>)))"
    by (auto simp: authMiddleware_def findById_def deselect_password_def user_of_def
        token_error_response_def cast_error_def user_not_found_response_def
        auth_failed_response_def reply_def)
  show ?thesis
    using token_priority [of req] token_of_header [of req t] missing unkeyed present
      token_error_status token_error_message
    by simp
qed

theorem auth_middleware_contract_witness:
  "authMiddleware sample_env sample_db blank_request = Halted no_token_response \<and>
   authMiddleware (sample_env\<lparr>jwt_secret := None\<rparr>) sample_db blank_request =
     Halted no_token_response \<and>
   authMiddleware sample_env sample_db
     (blank_request\<lparr>authorization := Some ''Basic alice-token''\<rparr>) =
       Halted no_token_response \<and>
   authMiddleware sample_env sample_db
     (blank_request\<lparr>authorization := Some ''Bearer''\<rparr>) = Halted no_token_response \<and>
   status no_token_response = 401 \<and>
   authMiddleware (sample_env\<lparr>jwt_secret := None\<rparr>) sample_db
     (blank_request\<lparr>authorization := Some ''Bearer alice-token''\<rparr>) =
       Halted misconfigured_response \<and>
   authMiddleware (sample_env\<lparr>jwt_secret := Some []\<rparr>) sample_db
     (blank_request\<lparr>cookie_auth_token := Some ''alice-token''\<rparr>) =
       Halted misconfigured_response \<and>
   status misconfigured_response = 500 \<and>
   authMiddleware sample_env sample_db
     (blank_request\<lparr>cookie_token := Some ''alice-token'', cookie_auth_token := Some ''old-token'',
                     authorization := Some ''Bearer ghost-token''\<rparr>) =
       Proceed (Some (alice_id, alice\<lparr>password := None\<rparr>)) \<and>
   authMiddleware sample_env sample_db
     (blank_request\<lparr>cookie_auth_token := Some ''old-token'',
                     authorization := Some ''Bearer ghost-token''\<rparr>) =
       Halted token_expired_response \<and>
   authMiddleware sample_env sample_db
     (blank_request\<lparr>authorization := Some ''Bearer ghost-token''\<rparr>) =
       Halted user_not_found_response \<and>
   authMiddleware sample_env sample_db
     (blank_request\<lparr>authorization := Some ''Bearer junk''\<rparr>) =
       Halted (invalid_token_response ''jwt malformed'') \<and>
   authMiddleware sample_env sample_db
     (blank_request\<lparr>cookie_token := Some ''early-token''\<rparr>) = Halted auth_failed_response \<and>
   authMiddleware sample_env sample_db
     (blank_request\<lparr>cookie_token := Some ''short-token''\<rparr>) = Halted auth_failed_response \<and>
   message_of token_expired_response = Some ''Authentication expired'' \<and>
   message_of (invalid_token_response ''jwt malformed'') = Some ''Invalid authentication'' \<and>
   message_of auth_failed_response = Some ''Authentication failed''"
proof -
  note contract = auth_middleware_contract [of _ _ _ sample_db]
  note request = truthy_def bearer_token_def js_or_def startsWith_def nth_opt_def
    blank_request_def token_error_response_def
  have key: "jwt_secret sample_env = Some ''k3y''"
    by (simp add: sample_env_def)
  have verify:
    "jwt_verify sample_env ''alice-token'' (Some ''k3y'') = Inr alice_id"
    "jwt_verify sample_env ''ghost-token'' (Some ''k3y'') = Inr next_id"
    "jwt_verify sample_env ''short-token'' (Some ''k3y'') = Inr ''abc''"
    "jwt_verify sample_env ''old-token'' (Some ''k3y'') =
       Inl (Exn ''TokenExpiredError'' ''jwt expired'' None)"
    "jwt_verify sample_env ''early-token'' (Some ''k3y'') =
       Inl (Exn ''NotBeforeError'' ''jwt not active'' None)"
    "jwt_verify sample_env ''junk'' (Some ''k3y'') =
       Inl (Exn ''JsonWebTokenError'' ''jwt malformed'' None)"
    by (simp_all add: sample_env_def sample_verify_def)
  have short: "\<not> is_object_id ''abc''"
    by (simp add: is_object_id_def)
  have 1: "authMiddleware sample_env sample_db blank_request = Halted no_token_response"
    using contract [of blank_request "[]" sample_env] by (simp add: request)
  have 2: "authMiddleware (sample_env\<lparr>jwt_secret := None\<rparr>) sample_db blank_request =
      Halted no_token_response"
    using contract [of blank_request "[]" "sample_env\<lparr>jwt_secret := None\<rparr>"]
    by (simp add: request)
  have 3: "authMiddleware sample_env sample_db
      (blank_request\<lparr>authorization := Some ''Basic alice-token''\<rparr>) = Halted no_token_response"
    using contract [of "blank_request\<lparr>authorization := Some ''Basic alice-token''\<rparr>" "[]"
        sample_env]
    by (simp add: request)
  have 4: "authMiddleware sample_env sample_db
      (blank_request\<lparr>authorization := Some ''Bearer''\<rparr>) = Halted no_token_response"
    using contract [of "blank_request\<lparr>authorization := Some ''Bearer''\<rparr>" "[]" sample_env]
    by (simp add: request)
  have 5: "status no_token_response = 401" "status misconfigured_response = 500"
    using contract [of blank_request "[]" "sample_env\<lparr>jwt_secret := None\<rparr>"]
      contract [of "blank_request\<lparr>cookie_auth_token := Some ''alice-token''\<rparr>" "[]"
        "sample_env\<lparr>jwt_secret := None\<rparr>"]
    by (simp_all add: request)
  have 6: "authMiddleware (sample_env\<lparr>jwt_secret := None\<rparr>) sample_db
      (blank_request\<lparr>authorization := Some ''Bearer alice-token''\<rparr>) =
        Halted misconfigured_response"
    using contract [of "blank_request\<lparr>authorization := Some ''Bearer alice-token''\<rparr>"
        "''alice-token''" "sample_env\<lparr>jwt_secret := None\<rparr>"]
    by (simp add: request)
  have 7: "authMiddleware (sample_env\<lparr>jwt_secret := Some []\<rparr>) sample_db
      (blank_request\<lparr>cookie_auth_token := Some ''alice-token''\<rparr>) =
        Halted misconfigured_response"
    using contract [of "blank_request\<lparr>cookie_auth_token := Some ''alice-token''\<rparr>" "[]"
        "sample_env\<lparr>jwt_secret := Some []\<rparr>"]
    by (simp add: request)
  have 8: "authMiddleware sample_env sample_db
     (blank_request\<lparr>cookie_token := Some ''alice-token'', cookie_auth_token := Some ''old-token'',
                     authorization := Some ''Bearer ghost-token''\<rparr>) =
       Proceed (Some (alice_id, alice\<lparr>password := None\<rparr>))"
    using contract [of "blank_request\<lparr>cookie_token := Some ''alice-token'',
        cookie_auth_token := Some ''old-token'', authorization := Some ''Bearer ghost-token''\<rparr>"
        "[]" sample_env]
      verify sample_users sample_ids key
    by (simp add: request)
  have 9: "authMiddleware sample_env sample_db
     (blank_request\<lparr>cookie_auth_token := Some ''old-token'',
                     authorization := Some ''Bearer ghost-token''\<rparr>) =
       Halted token_expired_response"
    using contract [of "blank_request\<lparr>cookie_auth_token := Some ''old-token'',
        authorization := Some ''Bearer ghost-token''\<rparr>" "[]" sample_env] verify key
    by (simp add: request)
  have 10: "authMiddleware sample_env sample_db
     (blank_request\<lparr>authorization := Some ''Bearer ghost-token''\<rparr>) =
       Halted user_not_found_response"
    using contract [of "blank_request\<lparr>authorization := Some ''Bearer ghost-token''\<rparr>"
        "''ghost-token''" sample_env] verify sample_users sample_ids key
    by (simp add: request)
  have 11: "authMiddleware sample_env sample_db
     (blank_request\<lparr>authorization := Some ''Bearer junk''\<rparr>) =
       Halted (invalid_token_response ''jwt malformed'')"
    using contract [of "blank_request\<lparr>authorization := Some ''Bearer junk''\<rparr>" "''junk''"
        sample_env] verify key
    by (simp add: request)
  have 12: "authMiddleware sample_env sample_db
     (blank_request\<lparr>cookie_token := Some ''early-token''\<rparr>) = Halted auth_failed_response"
    using contract [of "blank_request\<lparr>cookie_token := Some ''early-token''\<rparr>" "[]" sample_env]
      verify key
    by (simp add: request)
  have 13: "authMiddleware sample_env sample_db
     (blank_request\<lparr>cookie_token := Some ''short-token''\<rparr>) = Halted auth_failed_response"
    using contract [of "blank_request\<lparr>cookie_token := Some ''short-token''\<rparr>" "[]" sample_env]
      verify key short
    by (simp add: request)
  have 14: "message_of token_expired_response = Some ''Authentication expired''"
    "message_of (invalid_token_response ''jwt malformed'') = Some ''Invalid authentication''"
    "message_of auth_failed_response = Some ''Authentication failed''"
    by (simp_all add: message_of_def json_field_def token_expired_response_def
        invalid_token_response_def auth_failed_response_def reply_def)
  show ?thesis using 1 2 3 4 5 6 7 8 9 10 11 12 13 14 by simp
qed

theorem auth_middleware_unkeyed_counterexample:
  "bearer_token (blank_request\<lparr>cookie_token := Some ''old-token''\<rparr>) = Some ''old-token'' \<and>
   jwt_verify (sample_env\<lparr>jwt_secret := None\<rparr>) ''old-token''
       (jwt_secret (sample_env\<lparr>jwt_secret := None\<rparr>)) =
     Inl (Exn ''JsonWebTokenError'' ''secret or public key must be provided'' None) \<and>
   authMiddleware (sample_env\<lparr>jwt_secret := None\<rparr>) sample_db
       (blank_request\<lparr>cookie_token := Some ''old-token''\<rparr>) =
     Halted misconfigured_response \<and>
   status misconfigured_response = 500"
  by (simp add: authMiddleware_def bearer_token_def js_or_def truthy_def blank_request_def
      sample_env_def sample_verify_def misconfigured_response_def reply_def)

section \<open>Leaving and joining a community\<close>

lemma leave_eval:
  assumes "params_id req = cid" "is_object_id cid" "community_of d cid = Some c"
      and "acts_as d actor req u"
  shows "leaveCommunity d actor req =
     (if u \<notin> set (members c) then (not_a_member_response, d)
      else if sole_moderator_among_others u c then (last_moderator_response, d)
      else (left_response,
            update_user u (leave_user (to_oid cid))
              (save_community cid
                 (c\<lparr>members := filter (\<lambda>m. m \<noteq> u) (members c),
                    moderators := filter (\<lambda>m. m \<noteq> u) (moderators c)\<rparr>) d)))"
proof -
  have "cid \<noteq> []" using assms(2) by (auto simp: is_object_id_def)
  moreover have "u \<noteq> []" using assms(4) by (simp add: acts_as_def)
  moreover have "findById (communities d) cid = Inr (Some c)"
    using assms(2,3) by (simp add: findById_def community_of_def)
  ultimately show ?thesis
    using assms(1,2) acts_as_resolve_member [OF assms(4)]
    by (simp add: leaveCommunity_def Let_def sole_moderator_among_others_def)
qed

lemma join_eval:
  assumes "params_id req = cid" "is_object_id cid" "community_of d cid = Some c"
      and "acts_as d actor req u"
  shows "joinCommunity d actor req =
     (if u \<in> set (members c) then (already_member_response, d)
      else (reply 200
              [(''success'', JBool True),
               (''message'', JStr ''Joined community successfully''),
               (''data'', community_json (to_oid cid) (c\<lparr>members := members c @ [to_oid u]\<rparr>))],
            update_user u (join_user (to_oid cid))
              (save_community cid (c\<lparr>members := members c @ [to_oid u]\<rparr>) d)))"
proof -
  have "cid \<noteq> []" using assms(2) by (auto simp: is_object_id_def)
  moreover have "u \<noteq> []" using assms(4) by (simp add: acts_as_def)
  moreover have "findById (communities d) cid = Inr (Some c)"
    using assms(2,3) by (simp add: findById_def community_of_def)
  ultimately show ?thesis
    using assms(1,2) acts_as_resolve_member [OF assms(4)]
    by (simp add: joinCommunity_def Let_def)
qed

text \<open>
  What the handler does for the string \<open>u\<close> it works with.  If no member prints as
  \<open>u\<close>, the answer is 400 \<open>Not a member of this community\<close>.  If a moderator prints
  as \<open>u\<close>, the community has exactly one moderator and more than one member, and its
  moderators are members as the data model has it, the answer is 400 \<open>As the only
  moderator, you cannot leave ...\<close>.  In both cases the store is returned as it was.
\<close>

lemma leave_refusals:
  assumes "params_id req = cid" and "is_object_id cid" and "community_of d cid = Some c"
      and "acts_as d actor req u"
      and "set (moderators c) \<subseteq> set (members c)"
  shows "(u \<notin> set (members c) \<longrightarrow>
            leaveCommunity d actor req = (not_a_member_response, d)) \<and>
         (u \<in> set (moderators c) \<and> length (moderators c) = 1 \<and> length (members c) > 1 \<longrightarrow>
            leaveCommunity d actor req = (last_moderator_response, d)) \<and>
         status not_a_member_response = 400 \<and>
         message_of not_a_member_response = Some ''Not a member of this community'' \<and>
         status last_moderator_response = 400 \<and>
         not_a_member_response \<noteq> last_moderator_response"
  using leave_eval [OF assms(1-4)] assms(5)
  by (auto simp: not_a_member_response_def last_moderator_response_def reply_def
      message_of_def json_field_def sole_moderator_among_others_def)

text \<open>
  C2.  The claim fails on the code for a leave request with no token whose body names
  the only moderator of a community of two members by her id written in capitals.  The
  string finds her (\<open>findById\<close> casts it), she is a member and the only moderator, and
  the claim has the leave refused as that of the last moderator.  The handler compares the
  string of the body with the ids as printed, finds no member equal to it, and answers 400
  \<open>Not a member of this community\<close>.  The same request with the id as the store prints
  it is refused as the claim says.
\<close>

theorem leave_by_id_in_capitals:
  "user_of sample_db alice_in_capitals = Some alice \<and>
   user_of sample_db alice_id = Some alice \<and>
   community_of sample_db club_id = Some club \<and>
   alice_id \<in> set (members club) \<and>
   alice_id \<in> set (moderators club) \<and> length (moderators club) = 1 \<and>
   length (members club) > 1 \<and>
   leaveCommunity sample_db None
       (blank_request\<lparr>params_id := club_id, body_userId := Some alice_in_capitals\<rparr>) =
     (not_a_member_response, sample_db) \<and>
   leaveCommunity sample_db None
       (blank_request\<lparr>params_id := club_id, body_userId := Some alice_id\<rparr>) =
     (last_moderator_response, sample_db) \<and>
   not_a_member_response \<noteq> last_moderator_response"
proof -
  have req: "params_id (blank_request\<lparr>params_id := club_id, body_userId := Some i\<rparr>) = club_id"
    for i by simp
  have capitals: "alice_in_capitals \<notin> set (members club)"
    using sample_ids_differ by (simp add: club_def)
  have printed: "alice_id \<in> set (members club)" "sole_moderator_among_others alice_id club"
    by (simp_all add: club_def sole_moderator_among_others_def)
  have 1: "leaveCommunity sample_db None
       (blank_request\<lparr>params_id := club_id, body_userId := Some alice_in_capitals\<rparr>) =
     (not_a_member_response, sample_db)"
    using leave_eval [OF req sample_ids(4) sample_documents(1) sample_body_actors(2)] capitals
    by simp
  have 2: "leaveCommunity sample_db None
       (blank_request\<lparr>params_id := club_id, body_userId := Some alice_id\<rparr>) =
     (last_moderator_response, sample_db)"
    using leave_eval [OF req sample_ids(4) sample_documents(1) sample_body_actors(1)] printed
    by simp
  show ?thesis
    using 1 2 sample_users sample_documents(1)
    by (simp add: club_def not_a_member_response_def last_moderator_response_def reply_def)
qed

text \<open>
  C3, as amended.  Let \<open>u\<close> make the requests under a verified token, or by a
  \<open>userId\<close> of the body written as the store prints ids.  A join by \<open>u\<close> when \<open>u\<close> is
  already a member answers 200 \<open>Already a member\<close> and leaves the store as it was.
  After a join by \<open>u\<close>, \<open>u\<close> is a member; a leave by \<open>u\<close> that follows then removes
  \<open>u\<close> from the members and the community from \<open>u\<close>'s joined communities, unless
  \<open>u\<close> is the community's only moderator and the community has more than one member:
  then the leave is refused and nothing changes.
\<close>

theorem join_then_leave:
  assumes "params_id req = cid" and "is_object_id cid" and "community_of d cid = Some c"
      and "acts_as d actor req u" and "to_oid u = u" and "user_of d u = Some usr"
  shows "(u \<in> set (members c) \<longrightarrow>
            joinCommunity d actor req = (already_member_response, d) \<and>
            status already_member_response = 200) \<and>
         (\<exists>c1. community_of (snd (joinCommunity d actor req)) cid = Some c1 \<and>
            u \<in> set (members c1) \<and>
            (if sole_moderator_among_others u c1
             then leaveCommunity (snd (joinCommunity d actor req)) actor req =
                    (last_moderator_response, snd (joinCommunity d actor req))
             else fst (leaveCommunity (snd (joinCommunity d actor req)) actor req) = left_response \<and>
                  (\<exists>c2 usr2.
                     community_of (snd (leaveCommunity (snd (joinCommunity d actor req)) actor req)) cid
                       = Some c2 \<and>
                     u \<notin> set (members c2) \<and>
                     user_of (snd (leaveCommunity (snd (joinCommunity d actor req)) actor req)) u
                       = Some usr2 \<and>
                     to_oid cid \<notin> set (joinedCommunities usr2))))"
proof -
  define d1 where "d1 = snd (joinCommunity d actor req)"
  define c1 where "c1 = (if u \<in> set (members c) then c else c\<lparr>members := members c @ [u]\<rparr>)"
  note j = join_eval [OF assms(1-4)]
  have c1: "community_of d1 cid = Some c1"
    using assms(3,5)
    by (cases "u \<in> set (members c)") (simp_all add: d1_def c1_def j community_of_save_community)
  have m1: "u \<in> set (members c1)" by (simp add: c1_def)
  have a1: "acts_as d1 actor req u"
    using assms(4)
    by (cases "u \<in> set (members c)")
       (simp_all add: d1_def j acts_as_update_user acts_as_save_community)
  have "\<exists>usr1. user_of d1 u = Some usr1"
    using assms(6) by (cases "u \<in> set (members c)") (simp_all add: d1_def j user_of_update_user)
  then obtain usr1 where u1: "user_of d1 u = Some usr1" ..
  note l = leave_eval [OF assms(1,2) c1 a1]
  have first: "u \<in> set (members c) \<longrightarrow>
            joinCommunity d actor req = (already_member_response, d) \<and>
            status already_member_response = 200"
    by (simp add: j already_member_response_def reply_def)
  have second: "if sole_moderator_among_others u c1
             then leaveCommunity d1 actor req = (last_moderator_response, d1)
             else fst (leaveCommunity d1 actor req) = left_response \<and>
                  (\<exists>c2 usr2.
                     community_of (snd (leaveCommunity d1 actor req)) cid = Some c2 \<and>
                     u \<notin> set (members c2) \<and>
                     user_of (snd (leaveCommunity d1 actor req)) u = Some usr2 \<and>
                     to_oid cid \<notin> set (joinedCommunities usr2))"
    using m1 u1
    by (simp add: l community_of_save_community user_of_update_user leave_user_def pull_def)
  show ?thesis
    using first second c1 m1 unfolding d1_def by blast
qed

theorem join_then_leave_witness:
  "joinCommunity sample_db (Some (bob_id, bob)) (blank_request\<lparr>params_id := club_id\<rparr>) =
     (already_member_response, sample_db) \<and>
   \<not> sole_moderator_among_others bob_id club \<and>
   (\<exists>c2 usr2.
      community_of
        (snd (leaveCommunity sample_db (Some (bob_id, bob)) (blank_request\<lparr>params_id := club_id\<rparr>)))
        club_id = Some c2 \<and>
      bob_id \<notin> set (members c2) \<and>
      user_of
        (snd (leaveCommunity sample_db (Some (bob_id, bob)) (blank_request\<lparr>params_id := club_id\<rparr>)))
        bob_id = Some usr2 \<and>
      club_id \<notin> set (joinedCommunities usr2))"
proof -
  have req: "params_id (blank_request\<lparr>params_id := club_id\<rparr>) = club_id" by simp
  have member: "bob_id \<in> set (members club)" by (simp add: club_def)
  have free: "\<not> sole_moderator_among_others bob_id club"
    using sample_ids_differ by (simp add: sole_moderator_among_others_def club_def)
  show ?thesis
    using join_then_leave [OF req sample_ids(4) sample_documents(1) sample_actors(2)
        sample_ids_printed(2) sample_users(2)] member free sample_documents(1)
        sample_ids_printed(4)
    by auto
qed

theorem join_then_leave_counterexample:
  "joinCommunity sample_db (Some (alice_id, alice)) (blank_request\<lparr>params_id := club_id\<rparr>) =
     (already_member_response, sample_db) \<and>
   leaveCommunity sample_db (Some (alice_id, alice)) (blank_request\<lparr>params_id := club_id\<rparr>) =
     (last_moderator_response, sample_db) \<and>
   status last_moderator_response = 400 \<and>
   community_of sample_db club_id = Some club \<and>
   alice_id \<in> set (members club)"
proof -
  have req: "params_id (blank_request\<lparr>params_id := club_id\<rparr>) = club_id" by simp
  have "joinCommunity sample_db (Some (alice_id, alice)) (blank_request\<lparr>params_id := club_id\<rparr>) =
     (already_member_response, sample_db)"
    using join_eval [OF req sample_ids(4) sample_documents(1) sample_actors(1)]
    by (simp add: club_def)
  moreover have "leaveCommunity sample_db (Some (alice_id, alice))
      (blank_request\<lparr>params_id := club_id\<rparr>) = (last_moderator_response, sample_db)"
    using leave_eval [OF req sample_ids(4) sample_documents(1) sample_actors(1)]
    by (simp add: club_def sole_moderator_among_others_def)
  ultimately show ?thesis
    using sample_documents(1)
    by (simp add: club_def last_moderator_response_def reply_def)
qed

text \<open>
  A \<open>userId\<close> of the body in another letter case is outside the amended claim.  For
  such a request of a member the join finds no member equal to the string and stores the
  member's id a second time, and the leave that follows finds none either and is refused:
  the user is a member after the two requests.
\<close>

lemma join_by_id_in_capitals:
  "user_of sample_db bob_in_capitals = Some bob \<and>
   bob_id \<in> set (members club) \<and>
   status (fst (joinCommunity sample_db None
     (blank_request\<lparr>params_id := club_id, body_userId := Some bob_in_capitals\<rparr>))) = 200 \<and>
   message_of (fst (joinCommunity sample_db None
     (blank_request\<lparr>params_id := club_id, body_userId := Some bob_in_capitals\<rparr>))) =
     Some ''Joined community successfully'' \<and>
   community_of (snd (joinCommunity sample_db None
     (blank_request\<lparr>params_id := club_id, body_userId := Some bob_in_capitals\<rparr>))) club_id =
     Some (club\<lparr>members := [alice_id, bob_id, bob_id]\<rparr>) \<and>
   leaveCommunity
     (snd (joinCommunity sample_db None
        (blank_request\<lparr>params_id := club_id, body_userId := Some bob_in_capitals\<rparr>)))
     None (blank_request\<lparr>params_id := club_id, body_userId := Some bob_in_capitals\<rparr>) =
     (not_a_member_response,
      snd (joinCommunity sample_db None
        (blank_request\<lparr>params_id := club_id, body_userId := Some bob_in_capitals\<rparr>)))"
proof -
  let ?req = "blank_request\<lparr>params_id := club_id, body_userId := Some bob_in_capitals\<rparr>"
  let ?c1 = "club\<lparr>members := members club @ [to_oid bob_in_capitals]\<rparr>"
  let ?d1 = "update_user bob_in_capitals (join_user (to_oid club_id))
               (save_community club_id ?c1 sample_db)"
  have req: "params_id ?req = club_id" by simp
  have outside: "bob_in_capitals \<notin> set (members club)"
    using sample_ids_differ by (simp add: club_def)
  have j: "joinCommunity sample_db None ?req =
     (reply 200
        [(''success'', JBool True),
         (''message'', JStr ''Joined community successfully''),
         (''data'', community_json (to_oid club_id) ?c1)], ?d1)"
    using join_eval [OF req sample_ids(4) sample_documents(1) sample_body_actors(5)] outside
    by simp
  have c1: "community_of ?d1 club_id = Some ?c1"
    by (simp add: community_of_save_community)
  have a1: "acts_as ?d1 None ?req bob_in_capitals"
    using sample_body_actors(5) [of "blank_request\<lparr>params_id := club_id\<rparr>"]
    by (simp add: acts_as_update_user acts_as_save_community)
  have still: "bob_in_capitals \<notin> set (members ?c1)"
    using sample_ids_differ by (simp add: club_def sample_ids_printed)
  have l: "leaveCommunity ?d1 None ?req = (not_a_member_response, ?d1)"
    using leave_eval [OF req sample_ids(4) c1 a1] still by simp
  show ?thesis
    using j c1 l sample_users
    by (simp add: club_def sample_ids_printed reply_def message_of_def json_field_def)
qed

section \<open>Saving a job\<close>

lemma toggle_eval:
  assumes "is_object_id j" "is_object_id u" "job_of d j = Some jb" "user_of d u = Some usr"
  shows "toggleSave d j u =
     (if to_oid j \<in> set (savedJobs usr)
      then Inr (\<lparr>t_success = True, t_message = ''Job unsaved'', isSaved = False\<rparr>,
                update_user u (\<lambda>v. v\<lparr>savedJobs := pull (to_oid j) (savedJobs v)\<rparr>) d)
      else Inr (\<lparr>t_success = True, t_message = ''Job saved'', isSaved = True\<rparr>,
                update_user u (\<lambda>v. v\<lparr>savedJobs := addToSet (to_oid j) (savedJobs v)\<rparr>) d))"
  using assms by (simp add: toggleSave_def findById_def job_of_def user_of_def Let_def)

lemma toggle_step:
  assumes "is_object_id j" "is_object_id u" "job_of d j = Some jb" "user_of d u = Some usr"
  shows "\<exists>r d'. toggleSave d j u = Inr (r, d') \<and> isSaved r = (\<not> has_saved d u j) \<and>
           has_saved d' u j = isSaved r \<and> job_of d' j = Some jb \<and>
           (\<exists>usr'. user_of d' u = Some usr')"
  using assms
  by (auto simp: toggle_eval [OF assms] has_saved_def user_of_update_user pull_def addToSet_def)

text \<open>
  C4.  For a job \<open>j\<close> and a user \<open>u\<close> of the store, with \<open>j\<close> not among \<open>u\<close>'s
  saved jobs: three calls of \<open>toggleSave\<close> in a row return \<open>isSaved\<close> true, false and
  true, and after each call the returned flag says whether \<open>j\<close> is among \<open>u\<close>'s saved
  jobs in the store the call left.  The two ids are the strings of the request, in any
  letter case: the handler finds the job and the user by them and works with the id of the
  job it found.
\<close>

theorem toggle_save_flip:
  assumes "is_object_id j" and "is_object_id u"
      and "job_of d j = Some jb" and "user_of d u = Some usr"
      and "\<not> has_saved d u j"
  shows "\<exists>r1 d1 r2 d2 r3 d3.
           toggleSave d j u = Inr (r1, d1) \<and> isSaved r1 \<and> has_saved d1 u j \<and>
           toggleSave d1 j u = Inr (r2, d2) \<and> \<not> isSaved r2 \<and> \<not> has_saved d2 u j \<and>
           toggleSave d2 j u = Inr (r3, d3) \<and> isSaved r3 \<and> has_saved d3 u j"
proof -
  obtain r1 d1 usr1 where 1: "toggleSave d j u = Inr (r1, d1)"
    "isSaved r1 = (\<not> has_saved d u j)" "has_saved d1 u j = isSaved r1"
    "job_of d1 j = Some jb" "user_of d1 u = Some usr1"
    using toggle_step [OF assms(1-4)] by blast
  obtain r2 d2 usr2 where 2: "toggleSave d1 j u = Inr (r2, d2)"
    "isSaved r2 = (\<not> has_saved d1 u j)" "has_saved d2 u j = isSaved r2"
    "job_of d2 j = Some jb" "user_of d2 u = Some usr2"
    using toggle_step [OF assms(1,2) 1(4,5)] by blast
  obtain r3 d3 usr3 where 3: "toggleSave d2 j u = Inr (r3, d3)"
    "isSaved r3 = (\<not> has_saved d2 u j)" "has_saved d3 u j = isSaved r3"
    "job_of d3 j = Some jb" "user_of d3 u = Some usr3"
    using toggle_step [OF assms(1,2) 2(4,5)] by blast
  show ?thesis using 1 2 3 assms(5) by auto
qed

theorem toggle_save_flip_witness:
  "\<not> has_saved sample_db bob_id gig_id \<and>
   (\<exists>r1 d1 r2 d2 r3 d3.
      toggleSave sample_db gig_id bob_id = Inr (r1, d1) \<and> isSaved r1 \<and> has_saved d1 bob_id gig_id \<and>
      toggleSave d1 gig_id bob_id = Inr (r2, d2) \<and> \<not> isSaved r2 \<and> \<not> has_saved d2 bob_id gig_id \<and>
      toggleSave d2 gig_id bob_id = Inr (r3, d3) \<and> isSaved r3 \<and> has_saved d3 bob_id gig_id)"
proof -
  have fresh: "\<not> has_saved sample_db bob_id gig_id"
    using sample_users(2) by (simp add: has_saved_def bob_def member_of_staff_def)
  show ?thesis
    using toggle_save_flip [OF sample_ids(6) sample_ids(2) sample_documents(3) sample_users(2)
        fresh] fresh
    by simp
qed

section \<open>Liking a post\<close>

lemma like_eval:
  assumes "params_id req = pid" "is_object_id pid" "post_of d pid = Some p"
      and "acts_as d actor req u"
  shows "likePost d actor req =
     (if u \<in> set (likes p) then (already_liked_response, d)
      else (reply 200
              [(''success'', JBool True),
               (''message'', JStr ''Post liked successfully''),
               (''likeCount'', JNum (int (length (likes p @ [to_oid u])))),
               (''data'', post_json (to_oid pid) (p\<lparr>likes := likes p @ [to_oid u]\<rparr>)
                             (author_ref (p\<lparr>likes := likes p @ [to_oid u]\<rparr>)))],
            save_post pid (p\<lparr>likes := likes p @ [to_oid u]\<rparr>) d))"
proof -
  have "u \<noteq> []" using assms(4) by (simp add: acts_as_def)
  moreover have "findById (posts d) pid = Inr (Some p)"
    using assms(2,3) by (simp add: findById_def post_of_def)
  ultimately show ?thesis
    using assms(1) acts_as_resolve_liker [OF assms(4)]
    by (simp add: likePost_def Let_def)
qed

lemma unlike_eval:
  assumes "params_id req = pid" "is_object_id pid" "post_of d pid = Some p"
      and "acts_as d actor req u"
  shows "unlikePost d actor req =
     (if u \<notin> set (likes p) then (not_liked_response, d)
      else (reply 200
              [(''success'', JBool True),
               (''message'', JStr ''Post unliked successfully''),
               (''likeCount'', JNum (int (length (filter (\<lambda>l. l \<noteq> u) (likes p))))),
               (''data'', post_json (to_oid pid) (p\<lparr>likes := filter (\<lambda>l. l \<noteq> u) (likes p)\<rparr>)
                             (author_ref (p\<lparr>likes := filter (\<lambda>l. l \<noteq> u) (likes p)\<rparr>)))],
            save_post pid (p\<lparr>likes := filter (\<lambda>l. l \<noteq> u) (likes p)\<rparr>) d))"
proof -
  have "u \<noteq> []" using assms(4) by (simp add: acts_as_def)
  moreover have "findById (posts d) pid = Inr (Some p)"
    using assms(2,3) by (simp add: findById_def post_of_def)
  ultimately show ?thesis
    using assms(1) acts_as_resolve_liker [OF assms(4)]
    by (simp add: unlikePost_def Let_def)
qed

text \<open>
  What the two handlers do for the string \<open>u\<close> they work with.  A like when a like
  prints as \<open>u\<close> answers 400 \<open>Post already liked\<close>, an unlike when none does answers
  400 \<open>Post not liked yet\<close>, and both leave the store as it was.  A like that succeeds
  adds the id that \<open>u\<close> casts to at the end of the likes, an unlike that succeeds removes
  the likes that print as \<open>u\<close>, and the \<open>likeCount\<close> of the response is the number of
  likes of the post as stored by the call.
\<close>

lemma like_unlike_by_string:
  assumes "params_id req = pid" and "is_object_id pid" and "post_of d pid = Some p"
      and "acts_as d actor req u"
  shows "(u \<in> set (likes p) \<longrightarrow>
            likePost d actor req = (already_liked_response, d) \<and>
            status already_liked_response = 400) \<and>
         (u \<notin> set (likes p) \<longrightarrow>
            unlikePost d actor req = (not_liked_response, d) \<and>
            status not_liked_response = 400) \<and>
         (u \<notin> set (likes p) \<longrightarrow>
            status (fst (likePost d actor req)) = 200 \<and>
            post_of (snd (likePost d actor req)) pid = Some (p\<lparr>likes := likes p @ [to_oid u]\<rparr>) \<and>
            json_field ''likeCount'' (fst (likePost d actor req)) =
              Some (JNum (int (length (likes p @ [to_oid u]))))) \<and>
         (u \<in> set (likes p) \<longrightarrow>
            status (fst (unlikePost d actor req)) = 200 \<and>
            post_of (snd (unlikePost d actor req)) pid =
              Some (p\<lparr>likes := filter (\<lambda>l. l \<noteq> u) (likes p)\<rparr>) \<and>
            json_field ''likeCount'' (fst (unlikePost d actor req)) =
              Some (JNum (int (length (filter (\<lambda>l. l \<noteq> u) (likes p))))))"
  using like_eval [OF assms] unlike_eval [OF assms]
  by (simp add: already_liked_response_def not_liked_response_def reply_def json_field_def
      post_of_save_post)

text \<open>
  C5.  The claim fails on the code for a like request with no token whose body names a
  user who has liked the post by her id written in capitals.  The string finds her
  (\<open>findById\<close> casts it) and she is among the likes, so the claim has the like refused
  with 400 and the likes unchanged.  The handler compares the string of the body with the
  ids as printed, finds no like equal to it, stores her id a second time and answers 200
  with a like count of 2.  The unlike of the same request is refused as not liked, with
  her like in place.  The same requests with the id as the store prints it go as the
  claim says.
\<close>

theorem like_by_id_in_capitals:
  "user_of sample_db alice_in_capitals = Some alice \<and>
   user_of sample_db alice_id = Some alice \<and>
   post_of sample_db note_id = Some hello_note \<and>
   likes hello_note = [alice_id] \<and>
   status (fst (likePost sample_db None
     (blank_request\<lparr>params_id := note_id, body_userId := Some alice_in_capitals\<rparr>))) = 200 \<and>
   json_field ''likeCount'' (fst (likePost sample_db None
     (blank_request\<lparr>params_id := note_id, body_userId := Some alice_in_capitals\<rparr>))) =
     Some (JNum 2) \<and>
   post_of (snd (likePost sample_db None
     (blank_request\<lparr>params_id := note_id, body_userId := Some alice_in_capitals\<rparr>))) note_id =
     Some (hello_note\<lparr>likes := [alice_id, alice_id]\<rparr>) \<and>
   unlikePost sample_db None
       (blank_request\<lparr>params_id := note_id, body_userId := Some alice_in_capitals\<rparr>) =
     (not_liked_response, sample_db) \<and>
   likePost sample_db None
       (blank_request\<lparr>params_id := note_id, body_userId := Some alice_id\<rparr>) =
     (already_liked_response, sample_db) \<and>
   status already_liked_response = 400"
proof -
  have req: "params_id (blank_request\<lparr>params_id := note_id, body_userId := Some i\<rparr>) = note_id"
    for i by simp
  have likes: "likes hello_note = [alice_id]" by (simp add: hello_note_def)
  have capitals: "alice_in_capitals \<notin> set (likes hello_note)"
    using sample_ids_differ by (simp add: likes)
  note by_capitals =
    like_unlike_by_string [OF req sample_ids(5) sample_documents(2) sample_body_actors(2)]
  note by_printed =
    like_unlike_by_string [OF req sample_ids(5) sample_documents(2) sample_body_actors(1)]
  show ?thesis
    using by_capitals by_printed capitals likes sample_users sample_documents(2)
      sample_ids_printed(8)
    by simp
qed

section \<open>Applying for a job\<close>

lemma list_ex_applied:
  "list_ex (\<lambda>app. ap_user app = to_oid u) (applicants j) = has_applied u j"
  by (force simp: has_applied_def list_ex_iff image_iff)

lemma apply_eval:
  assumes "params_id req = jid" "is_object_id jid" "job_of d jid = Some j"
  shows "applyForJob e d (u, doc) req =
     (if has_applied u j then (already_applied_response, d)
      else if deadline_passed e j then (deadline_passed_response, d)
      else (applied_response,
            update_user u (\<lambda>v. v\<lparr>appliedJobs := appliedJobs v @ [new_applied_job e jid]\<rparr>)
              (save_job jid (j\<lparr>applicants := new_applicant e u req # applicants j\<rparr>) d)))"
proof -
  have same: "new_applicant e (to_oid u) req = new_applicant e u req"
    by (simp add: new_applicant_def)
  have update: "update_user (to_oid u) f s = update_user u f s" for f s
    by (simp add: update_user_def)
  show ?thesis
    using assms
    by (simp add: applyForJob_def Let_def findById_def job_of_def list_ex_applied
        deadline_passed_def user_id_def same update)
qed

lemma deadline_stays_passed:
  "deadline_passed e j \<Longrightarrow> now e \<le> now e' \<Longrightarrow> deadline_passed e' j"
  by (auto simp: deadline_passed_def split: option.splits)

lemma apply_again:
  assumes "params_id req = jid" "is_object_id jid" "job_of d jid = Some j"
      and "now e \<le> now e'"
  shows "status (fst (applyForJob e' (snd (applyForJob e d (u, doc) req)) (u, doc) req)) = 400"
proof -
  note a = apply_eval [OF assms(1-3)]
  let ?d' = "snd (applyForJob e d (u, doc) req)"
  show ?thesis
  proof (cases "has_applied u j")
    case True
    then show ?thesis
      by (simp add: a already_applied_response_def reply_def)
  next
    case False
    show ?thesis
    proof (cases "deadline_passed e j")
      case True
      with False have "?d' = d" by (simp add: a)
      then show ?thesis
        using False deadline_stays_passed [OF True assms(4)]
        by (simp add: a deadline_passed_response_def reply_def)
    next
      case open_job: False
      let ?j' = "j\<lparr>applicants := new_applicant e u req # applicants j\<rparr>"
      have "job_of ?d' jid = Some ?j'" using False open_job by (simp add: a job_of_save_job)
      moreover have "has_applied u ?j'" by (simp add: has_applied_def new_applicant_def)
      ultimately show ?thesis
        using apply_eval [OF assms(1,2), of ?d' ?j' e' u doc]
        by (simp add: already_applied_response_def reply_def)
    qed
  qed
qed

lemma apply_again_after_success:
  assumes "params_id req = jid" "is_object_id jid" "job_of d jid = Some j"
      and "\<not> has_applied u j \<or> \<not> deadline_passed e j"
  shows "fst (applyForJob e' (snd (applyForJob e d (u, doc) req)) (u, doc) req) =
           already_applied_response \<or>
         (\<not> has_applied u j \<and> deadline_passed e j)"
proof (cases "has_applied u j")
  case True
  then show ?thesis by (simp add: apply_eval [OF assms(1-3)])
next
  case False
  show ?thesis
  proof (cases "deadline_passed e j")
    case True
    then show ?thesis using False by simp
  next
    case open_job: False
    let ?d' = "snd (applyForJob e d (u, doc) req)"
    let ?j' = "j\<lparr>applicants := new_applicant e u req # applicants j\<rparr>"
    have "job_of ?d' jid = Some ?j'"
      using False open_job by (simp add: apply_eval [OF assms(1-3)] job_of_save_job)
    moreover have "has_applied u ?j'" by (simp add: has_applied_def new_applicant_def)
    ultimately show ?thesis
      using apply_eval [OF assms(1,2), of ?d' ?j' e' u doc] by simp
  qed
qed

text \<open>
  C6, as amended.  Let the authenticated user \<open>u\<close> apply for the job \<open>j\<close>.  If \<open>u\<close>
  is already among the applicants, the answer is 400 \<open>Already applied for this job\<close>.
  Otherwise, if the deadline is set and lies before the present, the answer is 400
  \<open>Application deadline has passed\<close>.  In both cases the store is as it was.  Otherwise
  the answer is 200, an entry for \<open>u\<close> with status \<open>applied\<close> is put at the head of the
  job's applicants, and an entry for \<open>j\<close> with status \<open>applied\<close> is put at the end of
  \<open>u\<close>'s applied jobs.  After an application that succeeded, a second one by \<open>u\<close> is
  answered \<open>Already applied for this job\<close> at any time; and whatever the first
  application did, a second one at the same or a later time is answered 400.  The entries
  hold the ids of the user and of the job as the store prints them.
\<close>

theorem apply_for_job_contract:
  assumes "params_id req = jid" and "is_object_id jid" and "job_of d jid = Some j"
      and "user_of d u = Some usr"
  shows "(has_applied u j \<longrightarrow> applyForJob e d (u, doc) req = (already_applied_response, d)) \<and>
         (\<not> has_applied u j \<and> deadline_passed e j \<longrightarrow>
            applyForJob e d (u, doc) req = (deadline_passed_response, d)) \<and>
         (\<not> has_applied u j \<and> \<not> deadline_passed e j \<longrightarrow>
            fst (applyForJob e d (u, doc) req) = applied_response \<and>
            job_of (snd (applyForJob e d (u, doc) req)) jid =
              Some (j\<lparr>applicants := new_applicant e u req # applicants j\<rparr>) \<and>
            user_of (snd (applyForJob e d (u, doc) req)) u =
              Some (usr\<lparr>appliedJobs := appliedJobs usr @ [new_applied_job e jid]\<rparr>)) \<and>
         ap_user (new_applicant e u req) = to_oid u \<and>
         ap_status (new_applicant e u req) = ''applied'' \<and>
         aj_job (new_applied_job e jid) = to_oid jid \<and>
         aj_status (new_applied_job e jid) = ''applied'' \<and>
         (\<not> has_applied u j \<and> \<not> deadline_passed e j \<longrightarrow>
            fst (applyForJob e' (snd (applyForJob e d (u, doc) req)) (u, doc) req) =
              already_applied_response) \<and>
         (now e \<le> now e' \<longrightarrow>
            status (fst (applyForJob e' (snd (applyForJob e d (u, doc) req)) (u, doc) req)) = 400) \<and>
         status already_applied_response = 400 \<and> status deadline_passed_response = 400 \<and>
         status applied_response = 200"
proof -
  note a = apply_eval [OF assms(1-3)]
  have outcomes:
    "(has_applied u j \<longrightarrow> applyForJob e d (u, doc) req = (already_applied_response, d)) \<and>
     (\<not> has_applied u j \<and> deadline_passed e j \<longrightarrow>
        applyForJob e d (u, doc) req = (deadline_passed_response, d)) \<and>
     (\<not> has_applied u j \<and> \<not> deadline_passed e j \<longrightarrow>
        fst (applyForJob e d (u, doc) req) = applied_response \<and>
        job_of (snd (applyForJob e d (u, doc) req)) jid =
          Some (j\<lparr>applicants := new_applicant e u req # applicants j\<rparr>) \<and>
        user_of (snd (applyForJob e d (u, doc) req)) u =
          Some (usr\<lparr>appliedJobs := appliedJobs usr @ [new_applied_job e jid]\<rparr>))"
    using assms(4) by (simp add: a job_of_save_job user_of_update_user)
  have second: "\<not> has_applied u j \<and> \<not> deadline_passed e j \<longrightarrow>
      fst (applyForJob e' (snd (applyForJob e d (u, doc) req)) (u, doc) req) =
        already_applied_response"
    using apply_again_after_success [OF assms(1-3), of u e e' doc] by blast
  show ?thesis
    using outcomes second apply_again [OF assms(1-3), of e e' u doc]
    by (simp add: new_applicant_def new_applied_job_def already_applied_response_def
        deadline_passed_response_def applied_response_def reply_def)
qed

theorem apply_for_job_contract_witness:
  "applyForJob sample_env sample_db (alice_id, alice) (blank_request\<lparr>params_id := gig_id\<rparr>) =
     (already_applied_response, sample_db) \<and>
   applyForJob (sample_env\<lparr>now := 5000\<rparr>) sample_db (bob_id, bob)
       (blank_request\<lparr>params_id := gig_id\<rparr>) = (deadline_passed_response, sample_db) \<and>
   fst (applyForJob sample_env sample_db (bob_id, bob) (blank_request\<lparr>params_id := gig_id\<rparr>)) =
     applied_response \<and>
   user_of (snd (applyForJob sample_env sample_db (bob_id, bob)
                   (blank_request\<lparr>params_id := gig_id\<rparr>))) bob_id =
     Some (bob\<lparr>appliedJobs := [\<lparr>aj_job = gig_id, aj_status = ''applied'', aj_appliedAt = 1000\<rparr>]\<rparr>) \<and>
   status (fst (applyForJob (sample_env\<lparr>now := 5000\<rparr>)
                  (snd (applyForJob sample_env sample_db (bob_id, bob)
                          (blank_request\<lparr>params_id := gig_id\<rparr>)))
                  (bob_id, bob) (blank_request\<lparr>params_id := gig_id\<rparr>))) = 400"
proof -
  have req: "params_id (blank_request\<lparr>params_id := gig_id\<rparr>) = gig_id" by simp
  have facts:
    "has_applied alice_id gig" "\<not> has_applied bob_id gig"
    "\<not> deadline_passed sample_env gig" "deadline_passed (sample_env\<lparr>now := 5000\<rparr>) gig"
    "now sample_env \<le> now (sample_env\<lparr>now := 5000\<rparr>)" "now sample_env = 1000"
    "appliedJobs bob = []"
    using sample_ids_differ
    by (simp_all add: has_applied_def deadline_passed_def gig_def sample_env_def bob_def
        member_of_staff_def sample_ids_printed)
  show ?thesis
    using apply_for_job_contract [OF req sample_ids(6) sample_documents(3) sample_users(1),
        of sample_env alice "sample_env\<lparr>now := 5000\<rparr>"]
      apply_for_job_contract [OF req sample_ids(6) sample_documents(3) sample_users(2),
        of "sample_env\<lparr>now := 5000\<rparr>" bob "sample_env\<lparr>now := 5000\<rparr>"]
      apply_for_job_contract [OF req sample_ids(6) sample_documents(3) sample_users(2),
        of sample_env bob "sample_env\<lparr>now := 5000\<rparr>"]
      facts
    by (simp add: new_applied_job_def sample_ids_printed)
qed

theorem apply_prepends_counterexample:
  "job_of (snd (applyForJob sample_env sample_db (bob_id, bob)
                  (blank_request\<lparr>params_id := gig_id\<rparr>))) gig_id =
     Some (gig\<lparr>applicants :=
        new_applicant sample_env bob_id (blank_request\<lparr>params_id := gig_id\<rparr>) # applicants gig\<rparr>) \<and>
   new_applicant sample_env bob_id (blank_request\<lparr>params_id := gig_id\<rparr>) # applicants gig \<noteq>
     applicants gig @ [new_applicant sample_env bob_id (blank_request\<lparr>params_id := gig_id\<rparr>)]"
proof -
  have req: "params_id (blank_request\<lparr>params_id := gig_id\<rparr>) = gig_id" by simp
  have open_job: "\<not> has_applied bob_id gig" "\<not> deadline_passed sample_env gig"
    using sample_ids_differ
    by (simp_all add: has_applied_def deadline_passed_def gig_def sample_env_def
        sample_ids_printed)
  have "job_of (snd (applyForJob sample_env sample_db (bob_id, bob)
                  (blank_request\<lparr>params_id := gig_id\<rparr>))) gig_id =
     Some (gig\<lparr>applicants :=
        new_applicant sample_env bob_id (blank_request\<lparr>params_id := gig_id\<rparr>) # applicants gig\<rparr>)"
    using apply_eval [OF req sample_ids(6) sample_documents(3), of sample_env bob_id bob] open_job
    by (simp add: job_of_save_job)
  moreover have
    "new_applicant sample_env bob_id (blank_request\<lparr>params_id := gig_id\<rparr>) # applicants gig \<noteq>
     applicants gig @ [new_applicant sample_env bob_id (blank_request\<lparr>params_id := gig_id\<rparr>)]"
    using sample_ids_differ by (simp add: gig_def new_applicant_def sample_ids_printed)
  ultimately show ?thesis by simp
qed

section \<open>Login\<close>

text \<open>
  Take one login request that carries a password, and two stores: in the first no user
  has the request's email, in the second a user has it and \<open>bcrypt.compare\<close> of the
  request's password with that user's hash is false.  Both runs send the same response,
  401 \<open>Invalid email or password\<close> with no cookie, and neither changes its store.
\<close>

lemma login_wrong_password:
  assumes "findOne_email (users d1) (body_email req) = None"
      and "findOne_email (users d2) (body_email req) = Some (uid, u)"
      and "body_password req = Some pw"
      and "password u = Some h" and "\<not> bcrypt_compare e pw h"
  shows "fst (login e d1 req) = fst (login e d2 req) \<and>
         fst (login e d1 req) = invalid_credentials \<and>
         status invalid_credentials = 401 \<and> cookies invalid_credentials = [] \<and>
         message_of invalid_credentials = Some ''Invalid email or password'' \<and>
         snd (login e d1 req) = d1 \<and> snd (login e d2 req) = d2"
  using assms
  by (simp add: login_def matchPassword_def invalid_credentials_def reply_def message_of_def
      json_field_def)

lemma sample_emails:
  "findOne_email (users sample_db) ''alice@example.com'' = Some (alice_id, alice)"
  "findOne_email (users sample_db) '' Alice@Example.com'' = Some (alice_id, alice)"
  "findOne_email (users sample_db) ''zoe@example.com'' = None"
  "findOne_email [] ''alice@example.com'' = None"
  by (simp_all add: findOne_email_def sample_db_def alice_def bob_def carol_def
      member_of_staff_def lowercase_def lower_char_def trim_def is_space_def)

text \<open>
  C7.  The claim fails on the code for a login request whose body has an email and no
  password.  When no user has the email the answer is 401 \<open>Invalid email or password\<close>,
  as for any failed login.  When a user has it, \<open>bcrypt.compare\<close> rejects the absent
  password, the handler's \<open>catch\<close> answers 500 \<open>Server error\<close>, and the two answers
  tell whether the email is that of an account.
\<close>

theorem login_without_password:
  "body_password (blank_request\<lparr>body_email := ''alice@example.com''\<rparr>) = None \<and>
   findOne_email (users sample_db) ''alice@example.com'' = Some (alice_id, alice) \<and>
   findOne_email (users sample_db) ''zoe@example.com'' = None \<and>
   login sample_env sample_db (blank_request\<lparr>body_email := ''alice@example.com''\<rparr>) =
     (server_error (Exn ''Error'' ''Illegal arguments: undefined, string'' None), sample_db) \<and>
   status (server_error (Exn ''Error'' ''Illegal arguments: undefined, string'' None)) = 500 \<and>
   login sample_env sample_db (blank_request\<lparr>body_email := ''zoe@example.com''\<rparr>) =
     (invalid_credentials, sample_db) \<and>
   login sample_env (sample_db\<lparr>users := []\<rparr>)
       (blank_request\<lparr>body_email := ''alice@example.com''\<rparr>) =
     (invalid_credentials, sample_db\<lparr>users := []\<rparr>) \<and>
   status invalid_credentials = 401 \<and>
   login sample_env sample_db
       (blank_request\<lparr>body_email := ''alice@example.com'', body_password := Some ''guess''\<rparr>) =
     (invalid_credentials, sample_db)"
proof -
  have hash: "password alice = Some ''hash:Alice''"
    by (simp add: alice_def member_of_staff_def)
  have blank: "body_password blank_request = None"
    by (simp add: blank_request_def)
  have wrong: "\<not> bcrypt_compare sample_env ''guess'' ''hash:Alice''"
    by (simp add: sample_env_def)
  show ?thesis
    using sample_emails hash blank wrong
    by (simp add: login_def matchPassword_def server_error_def invalid_credentials_def
        reply_def)
qed

section \<open>Creating a post\<close>




section \<open>The password is never printed\<close>

lemma no_key_in_strings [simp]: "\<not> list_ex (mentions_key k) (map JStr xs)"
  by (simp add: list_ex_iff)

lemma no_password_in_errors:
  "\<not> mentions_key ''password'' (body (server_error err))"
  "\<not> mentions_key ''password'' (body (catch_or_404 m err))"
  "\<not> mentions_key ''password'' (body (profile_db_error err))"
  "\<not> mentions_key ''password'' (body invalid_credentials)"
  by (simp_all add: server_error_def catch_or_404_def profile_db_error_def
      invalid_credentials_def reply_def)

lemma no_password_in_token_response [simp]:
  "\<not> mentions_key ''password'' (body (token_response code uid u tok))"
  by (simp add: token_response_def public_user_def)

lemma no_password_in_applied_refs [simp]: "\<not> mentions_key ''password'' (applied_refs u)"
  by (simp add: applied_refs_def applied_job_json_def list_ex_iff)

lemma no_password_register: "\<not> mentions_key ''password'' (body (fst (register e em d req)))"
  by (simp add: register_def Let_def no_password_in_errors reply_def
      split: option.splits sum.splits)

lemma no_password_login: "\<not> mentions_key ''password'' (body (fst (login e d req)))"
  by (simp add: login_def no_password_in_errors split: option.splits sum.splits prod.splits)

lemma no_password_getMe: "\<not> mentions_key ''password'' (body (getMe d actor))"
  by (simp add: getMe_def no_password_in_errors reply_def split: option.splits sum.splits)

lemma no_password_populate_joined [simp]:
  "\<not> mentions_key ''password'' (populate_joined d u)"
  by (auto simp: populate_joined_def populated_community_def list_ex_iff split: option.splits)

lemma populated_job_throws:
  "populated_job jid j =
     Inl (Exn ''TypeError'' ''Cannot read properties of undefined (reading 'length')'' None)"
  by (simp add: populated_job_def applicantCount_def)

lemma print_all_Inr:
  "print_all xs = Inr vs \<Longrightarrow> list_all (\<lambda>x. case x of Inl err \<Rightarrow> True | Inr v \<Rightarrow> \<not> P v) xs \<Longrightarrow>
     \<not> list_ex P vs"
  by (induction xs arbitrary: vs) (auto split: sum.splits)

lemma no_password_populate_applied:
  assumes "populate_applied d u = Inr v"
  shows "\<not> mentions_key ''password'' v"
proof -
  let ?xs = "map (\<lambda>a. case map_of (jobs d) (aj_job a) of
                          None \<Rightarrow> Inr (applied_job_json JNull a)
                        | Some j \<Rightarrow>
                            (case populated_job (aj_job a) j of
                               Inl err \<Rightarrow> Inl err
                             | Inr v \<Rightarrow> Inr (applied_job_json v a)))
                  (appliedJobs u)"
  obtain vs where vs: "print_all ?xs = Inr vs" "v = JArr vs"
    using assms by (auto simp: populate_applied_def split: sum.splits)
  have "list_all (\<lambda>x. case x of Inl err \<Rightarrow> True
                       | Inr v \<Rightarrow> \<not> mentions_key ''password'' v) ?xs"
    by (auto simp: list_all_iff applied_job_json_def populated_job_throws
        split: option.splits sum.splits)
  then show ?thesis
    using print_all_Inr [OF vs(1)] vs(2) by simp
qed

lemma no_password_getMyProfile:
  "\<not> mentions_key ''password'' (body (getMyProfile d actor))"
proof -
  have printed: "\<not> mentions_key ''password''
      (JObj [(''success'', JBool True),
             (''data'', JObj (user_fields uid (deselect_password u)
                [(''appliedJobs'', applied)]
                [(''joinedCommunities'', populate_joined d (deselect_password u))]))])"
    if "populate_applied d (deselect_password u) = Inr applied" for uid u applied
    using no_password_populate_applied [OF that]
    by (simp add: user_fields_def deselect_password_def)
  show ?thesis
    using printed
    by (simp add: getMyProfile_def Let_def no_password_in_errors reply_def
        split: option.splits sum.splits)
qed

lemma no_password_getUserProfile:
  "\<not> mentions_key ''password'' (body (getUserProfile d req))"
  by (simp add: getUserProfile_def Let_def no_password_in_errors reply_def user_fields_def
      split: option.splits sum.splits)

lemma attached_user_has_no_password:
  "authMiddleware e d req = Proceed (Some (uid, doc)) \<Longrightarrow> password doc = None"
  "optionalAuthMiddleware e d req = Proceed (Some (uid, doc)) \<Longrightarrow> password doc = None"
  by (auto simp: authMiddleware_def optionalAuthMiddleware_def deselect_password_def
      split: option.splits sum.splits if_splits)

lemma stored_document_prints_password:
  "password u = Some h \<Longrightarrow> mentions_key ''password'' (JObj (user_fields uid u applied joined))"
  by (simp add: user_fields_def)

lemma loaded_document_prints_no_password:
  "\<not> mentions_key ''password''
       (JObj (user_fields uid (deselect_password u)
                [(''appliedJobs'', applied_refs u)]
                [(''joinedCommunities'', JArr (map JStr (joinedCommunities u)))]))"
  by (simp add: user_fields_def deselect_password_def)

text \<open>
  C9.  Whatever the request and the store, the responses of \<open>register\<close>, \<open>login\<close>,
  \<open>GET /api/auth/me\<close> and the two profile reads print no key \<open>password\<close> at any
  depth, and the user that either middleware attaches to the request holds no password.
  A user document loaded by a query that does not select the password, printed with its
  references as they are stored, prints no such key either.
\<close>

theorem password_never_returned:
  "\<not> mentions_key ''password'' (body (fst (register e email_matches d req))) \<and>
   \<not> mentions_key ''password'' (body (fst (login e d req))) \<and>
   \<not> mentions_key ''password'' (body (getMe d actor)) \<and>
   \<not> mentions_key ''password'' (body (getMyProfile d actor)) \<and>
   \<not> mentions_key ''password'' (body (getUserProfile d req)) \<and>
   (\<forall>uid doc. authMiddleware e d req = Proceed (Some (uid, doc)) \<longrightarrow>
      password doc = None) \<and>
   (\<forall>uid doc. optionalAuthMiddleware e d req = Proceed (Some (uid, doc)) \<longrightarrow>
      password doc = None) \<and>
   \<not> mentions_key ''password''
       (JObj (user_fields uid (deselect_password u)
                [(''appliedJobs'', applied_refs u)]
                [(''joinedCommunities'', JArr (map JStr (joinedCommunities u)))]))"
  using no_password_register [of e email_matches d req] no_password_login [of e d req]
    no_password_getMe [of d actor] no_password_getMyProfile [of d actor]
    no_password_getUserProfile [of d req]
    attached_user_has_no_password [of e d req]
    loaded_document_prints_no_password [of uid u]
  by blast

theorem password_never_returned_witness:
  "password alice = Some ''hash:Alice'' \<and>
   mentions_key ''password'' (JObj (user_fields alice_id alice [] [])) \<and>
   authMiddleware sample_env sample_db (blank_request\<lparr>cookie_token := Some ''alice-token''\<rparr>) =
     Proceed (Some (alice_id, alice\<lparr>password := None\<rparr>)) \<and>
   password (alice\<lparr>password := None\<rparr>) = None \<and>
   status (getMyProfile sample_db (alice_id, alice)) = 500 \<and>
   \<not> mentions_key ''password'' (body (getMyProfile sample_db (alice_id, alice))) \<and>
   status (getMyProfile sample_db (bob_id, bob)) = 200 \<and>
   \<not> mentions_key ''password'' (body (getMyProfile sample_db (bob_id, bob))) \<and>
   status (getUserProfile sample_db (blank_request\<lparr>params_id := alice_id\<rparr>)) = 200 \<and>
   \<not> mentions_key ''password''
       (body (getUserProfile sample_db (blank_request\<lparr>params_id := alice_id\<rparr>))) \<and>
   status (getMe sample_db (alice_id, alice)) = 200 \<and>
   \<not> mentions_key ''password'' (body (getMe sample_db (alice_id, alice))) \<and>
   status (fst (login sample_env sample_db
      (blank_request\<lparr>body_email := ''alice@example.com'', body_password := Some ''Alice''\<rparr>))) =
     200 \<and>
   \<not> mentions_key ''password'' (body (fst (login sample_env sample_db
      (blank_request\<lparr>body_email := ''alice@example.com'', body_password := Some ''Alice''\<rparr>)))) \<and>
   status (fst (register sample_env (\<lambda>s. True) sample_db
      (blank_request\<lparr>body_name := ''Zoe'', body_email := ''zoe@example.com'',
                      body_password := Some ''secret''\<rparr>))) = 201 \<and>
   \<not> mentions_key ''password'' (body (fst (register sample_env (\<lambda>s. True) sample_db
      (blank_request\<lparr>body_name := ''Zoe'', body_email := ''zoe@example.com'',
                      body_password := Some ''secret''\<rparr>))))"
proof -
  have stored: "password alice = Some ''hash:Alice''"
    by (simp add: alice_def member_of_staff_def)
  have found: "findById (users sample_db) alice_id = Inr (Some alice)"
    "findById (users sample_db) bob_id = Inr (Some bob)"
    using sample_ids sample_users by (simp_all add: findById_def user_of_def)
  have gig: "map_of (jobs sample_db) gig_id = Some gig"
    using sample_documents(3) by (simp add: job_of_def sample_ids_printed)
  have applied:
    "populate_applied sample_db (deselect_password alice) =
       Inl (Exn ''TypeError'' ''Cannot read properties of undefined (reading 'length')'' None)"
    "populate_applied sample_db (deselect_password bob) = Inr (JArr [])"
    using gig
    by (simp_all add: populate_applied_def deselect_password_def alice_def bob_def
        member_of_staff_def populated_job_throws)
  have ok:
    "status (getMyProfile sample_db (alice_id, alice)) = 500"
    "status (getMyProfile sample_db (bob_id, bob)) = 200"
    "status (getUserProfile sample_db (blank_request\<lparr>params_id := alice_id\<rparr>)) = 200"
    "status (getMe sample_db (alice_id, alice)) = 200"
    using found applied sample_ids_differ
    by (simp_all add: getMyProfile_def getUserProfile_def getMe_def Let_def reply_def
        user_id_def sample_ids_printed profile_db_error_def)
  have login_ok: "status (fst (login sample_env sample_db
      (blank_request\<lparr>body_email := ''alice@example.com'', body_password := Some ''Alice''\<rparr>))) =
      200"
    using sample_emails(1) stored
    by (simp add: login_def matchPassword_def sample_env_def generateToken_def
        token_response_def)
  have register_ok: "status (fst (register sample_env (\<lambda>s. True) sample_db
      (blank_request\<lparr>body_name := ''Zoe'', body_email := ''zoe@example.com'',
                      body_password := Some ''secret''\<rparr>))) = 201"
    using sample_emails(3)
    by (simp add: register_def Let_def validate_user_def validation_error_def or_default_def
        trim_def is_space_def lowercase_def lower_char_def sample_env_def generateToken_def
        token_response_def blank_request_def)
  have attached: "authMiddleware sample_env sample_db
      (blank_request\<lparr>cookie_token := Some ''alice-token''\<rparr>) =
        Proceed (Some (alice_id, alice\<lparr>password := None\<rparr>))"
    using found(1)
    by (simp add: authMiddleware_def bearer_token_def js_or_def truthy_def blank_request_def
        sample_env_def sample_verify_def deselect_password_def)
  show ?thesis
    using password_never_returned [of sample_env "\<lambda>s. True" sample_db
        "blank_request\<lparr>params_id := alice_id\<rparr>" "(alice_id, alice)" alice_id alice]
      password_never_returned [of sample_env "\<lambda>s. True" sample_db
        "blank_request\<lparr>params_id := alice_id\<rparr>" "(bob_id, bob)" bob_id bob]
      password_never_returned [of sample_env "\<lambda>s. True" sample_db
        "blank_request\<lparr>body_email := ''alice@example.com'', body_password := Some ''Alice''\<rparr>"
        "(alice_id, alice)" alice_id alice]
      password_never_returned [of sample_env "\<lambda>s. True" sample_db
        "blank_request\<lparr>body_name := ''Zoe'', body_email := ''zoe@example.com'',
                        body_password := Some ''secret''\<rparr>" "(alice_id, alice)" alice_id alice]
      password_never_returned [of sample_env "\<lambda>s. True" sample_db
        "blank_request\<lparr>cookie_token := Some ''alice-token''\<rparr>" "(alice_id, alice)" alice_id
        alice]
      stored_document_prints_password [OF stored, of alice_id "[]" "[]"] stored ok login_ok
      register_ok attached
    by simp
qed

end
